theory Spec2Isabelle
  imports Complex_Main
begin

section \<open>Python values and errors\<close>

text \<open>
  Exceptions of the source are values: every function that can raise returns
  \<open>error + 'a\<close>, with \<open>Inl\<close> carrying the exception class.
\<close>

datatype error =
    KeyError | ValueError | IndexError | TypeError | AttributeError | UnboundLocalError
  | OverflowError

subsection \<open>Strings\<close>

text \<open>
  Python \<open>str\<close> is modelled as \<open>string\<close>; only ASCII text is considered, so
  \<open>lower\<close>, \<open>isdigit\<close> and the whitespace class are the ASCII ones.
\<close>

definition lower_char :: "char \<Rightarrow> char" where
  \<comment> \<open>an upper-case ASCII letter gets bit 5 set (its code plus 32)\<close>
  "lower_char c =
     (if 65 \<le> (of_char c :: nat) \<and> (of_char c :: nat) \<le> 90
      then (case c of Char b0 b1 b2 b3 b4 b5 b6 b7 \<Rightarrow> Char b0 b1 b2 b3 b4 True b6 b7)
      else c)"

definition lower :: "string \<Rightarrow> string" where
  "lower s = map lower_char s"

definition is_digit :: "char \<Rightarrow> bool" where
  "is_digit c = (48 \<le> (of_char c :: nat) \<and> (of_char c :: nat) \<le> 57)"

definition digit_val :: "char \<Rightarrow> nat" where
  "digit_val c = (of_char c :: nat) - 48"

definition is_space :: "char \<Rightarrow> bool" where
  "is_space c =
     ((of_char c :: nat) = 32 \<or> (9 \<le> (of_char c :: nat) \<and> (of_char c :: nat) \<le> 13)
      \<or> (28 \<le> (of_char c :: nat) \<and> (of_char c :: nat) \<le> 31))"

definition isdigit :: "string \<Rightarrow> bool" where
  "isdigit s = (s \<noteq> [] \<and> list_all is_digit s)"

definition startswith :: "string \<Rightarrow> string \<Rightarrow> bool" where
  "startswith s p = (take (length p) s = p)"

definition endswith :: "string \<Rightarrow> string \<Rightarrow> bool" where
  "endswith s p = (length p \<le> length s \<and> drop (length s - length p) s = p)"

fun contains :: "string \<Rightarrow> string \<Rightarrow> bool" where
  "contains [] p = (p = [])"
| "contains (c # cs) p = (startswith (c # cs) p \<or> contains cs p)"

definition lstrip :: "string \<Rightarrow> string" where
  "lstrip s = dropWhile is_space s"

definition rstrip :: "string \<Rightarrow> string" where
  "rstrip s = rev (dropWhile is_space (rev s))"

definition strip :: "string \<Rightarrow> string" where
  "strip s = rstrip (lstrip s)"

definition replace_char :: "char \<Rightarrow> string \<Rightarrow> string" where
  "replace_char c s = filter (\<lambda>x. x \<noteq> c) s"

text \<open>\<open>s.split(sep)\<close> for a non-empty separator: left to right, without overlap.\<close>

function split_acc :: "string \<Rightarrow> string \<Rightarrow> string \<Rightarrow> string list" where
  "split_acc sep cur [] = [rev cur]"
| "split_acc sep cur (c # cs) =
     (if sep \<noteq> [] \<and> startswith (c # cs) sep
      then rev cur # split_acc sep [] (drop (length sep) (c # cs))
      else split_acc sep (c # cur) cs)"
  by pat_completeness auto
termination
  by (relation "measure (\<lambda>(sep, cur, s). length s)") auto

definition split :: "string \<Rightarrow> string \<Rightarrow> string list" where
  "split s sep = split_acc sep [] s"

text \<open>\<open>s.split(c, 1)\<close> for a one-character separator: at most two pieces.\<close>

definition split1 :: "string \<Rightarrow> char \<Rightarrow> string list" where
  "split1 s c =
     (if c \<in> set s
      then [takeWhile (\<lambda>x. x \<noteq> c) s, tl (dropWhile (\<lambda>x. x \<noteq> c) s)]
      else [s])"

text \<open>\<open>s.split()\<close>: pieces between runs of whitespace, none of them empty.\<close>

fun split_ws_acc :: "string \<Rightarrow> string \<Rightarrow> string list" where
  "split_ws_acc cur [] = (if cur = [] then [] else [rev cur])"
| "split_ws_acc cur (c # cs) =
     (if is_space c
      then (if cur = [] then split_ws_acc [] cs else rev cur # split_ws_acc [] cs)
      else split_ws_acc (c # cur) cs)"

definition split_ws :: "string \<Rightarrow> string list" where
  "split_ws s = split_ws_acc [] s"

text \<open>\<open>str(n)\<close> and \<open>int(s)\<close> for decimal integers.\<close>

definition digits_val :: "string \<Rightarrow> nat" where
  "digits_val s = foldl (\<lambda>acc c. 10 * acc + digit_val c) 0 s"

definition valid_int_body :: "string \<Rightarrow> bool" where
  "valid_int_body s =
     (s \<noteq> [] \<and> list_all (\<lambda>c. is_digit c \<or> c = CHR ''_'') s
      \<and> hd s \<noteq> CHR ''_'' \<and> last s \<noteq> CHR ''_'' \<and> \<not> contains s ''__'')"

definition py_int :: "string \<Rightarrow> error + int" where
  "py_int s =
     (let t = strip s;
          neg = (t \<noteq> [] \<and> hd t = CHR ''-'');
          body = (if t \<noteq> [] \<and> (hd t = CHR ''-'' \<or> hd t = CHR ''+'') then tl t else t)
      in if valid_int_body body
         then Inr ((if neg then -1 else 1) * int (digits_val (replace_char (CHR ''_'') body)))
         else Inl ValueError)"

definition digit_char :: "nat \<Rightarrow> char" where
  "digit_char d = ''0123456789'' ! d"

function str_nat :: "nat \<Rightarrow> string" where
  "str_nat n =
     (if n < 10 then [digit_char n]
      else str_nat (n div 10) @ [digit_char (n mod 10)])"
  by pat_completeness auto
termination
  by (relation "measure id") auto

definition str_int :: "int \<Rightarrow> string" where
  "str_int i = (if i < 0 then CHR ''-'' # str_nat (nat (- i)) else str_nat (nat i))"


subsection \<open>Floating-point numbers\<close>

text \<open>
  A Python \<open>float\<close> is a finite number, one of the two infinities or
  not-a-number. Addition and comparison are the ones of IEEE 754: not-a-number
  absorbs every sum and fails every comparison, and the sum of the two
  infinities is not-a-number. Rounding is not modelled: \<open>Fin x\<close> stands for the
  double nearest to \<open>x\<close>.
\<close>

datatype pyfloat = Fin real | PosInf | NegInf | NaN

fun fadd :: "pyfloat \<Rightarrow> pyfloat \<Rightarrow> pyfloat" where
  "fadd (Fin x) (Fin y) = Fin (x + y)"
| "fadd NaN y = NaN"
| "fadd x NaN = NaN"
| "fadd PosInf NegInf = NaN"
| "fadd NegInf PosInf = NaN"
| "fadd PosInf y = PosInf"
| "fadd x PosInf = PosInf"
| "fadd NegInf y = NegInf"
| "fadd x NegInf = NegInf"

text \<open>\<open>x < y\<close>; the source's \<open>x > y\<close> is \<open>fless y x\<close>.\<close>

fun fless :: "pyfloat \<Rightarrow> pyfloat \<Rightarrow> bool" where
  "fless (Fin x) (Fin y) = (x < y)"
| "fless NaN y = False"
| "fless x NaN = False"
| "fless x NegInf = False"
| "fless NegInf y = True"
| "fless PosInf y = False"
| "fless x PosInf = True"

text \<open>
  \<open>float(n)\<close> on an integer raises \<open>OverflowError\<close> when \<open>n\<close> rounds beyond the
  largest double.
\<close>

definition float_int :: "int \<Rightarrow> error + pyfloat" where
  "float_int n =
     (if \<bar>n\<bar> < 2 ^ 1024 - 2 ^ 970 then Inr (Fin (of_int n)) else Inl OverflowError)"

text \<open>
  A coordinate, or the magnitude of a \<open>Quantity\<close> in degrees, is a scalar or a
  one-dimensional numpy array: astropy gives an array where it is handed one,
  and for a solar-system body. Adding a scalar to an array adds it to every
  element.
\<close>

datatype coord = Scalar pyfloat | Array "pyfloat list"

definition elements :: "coord \<Rightarrow> pyfloat list" where
  "elements v = (case v of Scalar x \<Rightarrow> [x] | Array xs \<Rightarrow> xs)"

definition coord_add :: "coord \<Rightarrow> pyfloat \<Rightarrow> coord" where
  "coord_add v y =
     (case v of
        Scalar x \<Rightarrow> Scalar (fadd x y)
      | Array xs \<Rightarrow> Array (map (\<lambda>x. fadd x y) xs))"

text \<open>
  The vocabulary of the range property: a number between two bounds, and a
  coordinate whose every element is such a number or is not-a-number.
\<close>

definition in_range :: "real \<Rightarrow> real \<Rightarrow> pyfloat \<Rightarrow> bool" where
  "in_range lo hi x = (case x of Fin y \<Rightarrow> lo \<le> y \<and> y \<le> hi | _ \<Rightarrow> False)"

definition nan_or_within :: "real \<Rightarrow> real \<Rightarrow> coord \<Rightarrow> bool" where
  "nan_or_within lo hi v = (\<forall>x \<in> set (elements v). x = NaN \<or> in_range lo hi x)"

subsection \<open>Coerced values and the external collaborators\<close>

text \<open>
  The values a \<open>_ParsetProperty\<close> holds after coercion. A \<open>Time\<close> is a point
  on the time axis, as a \<open>real\<close>, and a \<open>Quantity\<close> in degrees is its magnitude,
  a float.
\<close>

datatype elem = EInt int | ETime real | EStr string

datatype pvalue =
    VStr string | VInt int | VBool bool | VAngle pyfloat | VTime real | VList "elem list"

type_synonym store = "string \<rightharpoonup> pvalue"

text \<open>
  astropy, numpy's frequency table and Python's \<open>float\<close> parser are not part of the
  repository's sources: they are parameters of the model, bundled in one record.
  \<^item> \<open>parse_time s\<close> is \<open>Time(s, precision=0)\<close>, \<open>None\<close> where it raises \<open>ValueError\<close>;
  \<^item> \<open>parse_float s\<close> is \<open>float(s)\<close>, \<open>None\<close> where it raises \<open>ValueError\<close>;
  \<^item> \<open>isot t\<close> is \<open>t.isot\<close>;
  \<^item> \<open>time_delta v\<close> is \<open>TimeDelta(v, format='sec')\<close>, in seconds;
  \<^item> \<open>time_plus v d\<close> is \<open>v + d\<close> for a stored value \<open>v\<close> and a \<open>TimeDelta\<close> of \<open>d\<close> seconds;
  \<^item> \<open>altaz_of_radec t (ra, dec)\<close> is \<open>SkyCoord(ra, dec).transform_to(AltAz(obstime=t, ...))\<close>,
    giving azimuth and elevation;
  \<^item> \<open>radec_of_altaz t (az, el)\<close> is \<open>SkyCoord(az, el, frame=AltAz(obstime=t, ...)).transform_to(ICRS)\<close>,
    giving right ascension and declination in degrees;
  \<^item> \<open>solar_system name t\<close> is \<open>SolarSystemTarget.from_name(name, t)\<close>, giving its
    equatorial and its horizontal coordinates;
  \<^item> \<open>empty_array_raises\<close> tells the numpy release: \<open>bool\<close> of an empty array is
    \<open>False\<close> under a deprecation warning in the older ones and a \<open>ValueError\<close> in the
    later ones;
  \<^item> \<open>sb2freq sb\<close> is \<open>sb2freq(sb)[0]\<close> in MHz;
  \<^item> \<open>where_other idx v\<close> is \<open>np.where(np.array(idx) == v)[0]\<close> for a stored value \<open>v\<close>
    that is a list, an angle or a time, where numpy broadcasts or defers to astropy.
\<close>

record services =
  parse_time :: "string \<Rightarrow> real option"
  parse_float :: "string \<Rightarrow> pyfloat option"
  isot :: "real \<Rightarrow> string"
  time_delta :: "pvalue \<Rightarrow> error + real"
  time_plus :: "pvalue \<Rightarrow> real \<Rightarrow> error + real"
  altaz_of_radec :: "real \<Rightarrow> pyfloat \<times> pyfloat \<Rightarrow> error + coord \<times> coord"
  radec_of_altaz :: "real \<Rightarrow> coord \<times> coord \<Rightarrow> error + coord \<times> coord"
  solar_system :: "string \<Rightarrow> real \<Rightarrow> error + (coord \<times> coord) \<times> (coord \<times> coord)"
  empty_array_raises :: bool
  sb2freq :: "int \<Rightarrow> error + real"
  where_other :: "int list \<Rightarrow> pvalue \<Rightarrow> error + nat list"

section \<open>Typed property store: \<open>_ParsetProperty\<close>\<close>

definition getitem :: "store \<Rightarrow> string \<Rightarrow> error + pvalue" where
  "getitem m key = (case m key of None \<Rightarrow> Inl KeyError | Some v \<Rightarrow> Inr v)"

text \<open>One element of a bracketed list, as the loop body of \<open>__setitem__\<close> handles it.\<close>

definition coerce_elem :: "services \<Rightarrow> string \<Rightarrow> error + elem list" where
  "coerce_elem svc v =
     (if contains v ''..'' then
        (case split v ''..'' of
           [subBandSart, subBanStop] \<Rightarrow>
             (case py_int subBandSart of
                Inl e \<Rightarrow> Inl e
              | Inr lo \<Rightarrow>
                  (case py_int subBanStop of
                     Inl e \<Rightarrow> Inl e
                   | Inr hi \<Rightarrow> Inr (map EInt [lo..hi])))
         | _ \<Rightarrow> Inl ValueError)
      else if CHR '':'' \<in> set v then
        (case parse_time svc (strip v) of
           Some t \<Rightarrow> Inr [ETime t]
         | None \<Rightarrow> Inr [EStr v])
      else if isdigit v then
        (case py_int v of Inl e \<Rightarrow> Inl e | Inr n \<Rightarrow> Inr [EInt n])
      else Inr [EStr v])"

fun coerce_list :: "services \<Rightarrow> string list \<Rightarrow> error + elem list" where
  "coerce_list svc [] = Inr []"
| "coerce_list svc (v # vs) =
     (case coerce_elem svc v of
        Inl e \<Rightarrow> Inl e
      | Inr xs \<Rightarrow>
          (case coerce_list svc vs of Inl e \<Rightarrow> Inl e | Inr ys \<Rightarrow> Inr (xs @ ys)))"

definition coerce :: "services \<Rightarrow> string \<Rightarrow> string \<Rightarrow> error + pvalue" where
  "coerce svc key raw =
     (let value = replace_char (CHR 0x22) (replace_char (CHR 0x0A) raw) in
      if startswith value ''['' \<and> endswith value '']'' then
        (case coerce_list svc (split (butlast (tl value)) '','') of
           Inl e \<Rightarrow> Inl e
         | Inr xs \<Rightarrow> Inr (VList xs))
      else if lower value \<in> set [''on'', ''enable'', ''true''] then Inr (VBool True)
      else if lower value \<in> set [''off'', ''disable'', ''false''] then Inr (VBool False)
      else if contains (lower key) ''angle'' then
        (case parse_float svc value of
           None \<Rightarrow> Inl ValueError
         | Some x \<Rightarrow> Inr (VAngle x))
      else if isdigit value then
        (case py_int value of Inl e \<Rightarrow> Inl e | Inr n \<Rightarrow> Inr (VInt n))
      else if CHR '':'' \<in> set value then
        (case parse_time svc (strip value) of
           Some t \<Rightarrow> Inr (VTime t)
         | None \<Rightarrow> Inr (VStr value))
      else Inr (VStr value))"

definition setitem :: "services \<Rightarrow> store \<Rightarrow> string \<Rightarrow> string \<Rightarrow> error + store" where
  "setitem svc m key raw =
     (case coerce svc key raw of Inl e \<Rightarrow> Inl e | Inr v \<Rightarrow> Inr (m(key \<mapsto> v)))"

section \<open>Parset decoder: \<open>Parset._decodeParset\<close>\<close>

text \<open>
  The decoder's state: the five entity tables of \<open>Parset\<close>, and the loop's local
  variables \<open>dicoName\<close> and \<open>content\<close>, which are unbound (\<open>None\<close>) until a line
  with a dot has been read and keep their last value afterwards.
\<close>

record decoder =
  observation :: store
  p_output :: store
  anabeams :: "int \<rightharpoonup> store"
  digibeams :: "int \<rightharpoonup> store"
  phase_centers :: "int \<rightharpoonup> store"
  parset_user :: string
  dicoName :: "string option"
  content :: "string option"

definition new_parset :: decoder where
  "new_parset =
     \<lparr>observation = Map.empty, p_output = Map.empty, anabeams = Map.empty,
      digibeams = Map.empty, phase_centers = Map.empty, parset_user = [],
      dicoName = None, content = None\<rparr>"

text \<open>\<open>re.search(r'\[(\d*)\]', s)\<close>: the digits of the leftmost bracketed index.\<close>

fun re_search_index :: "string \<Rightarrow> string option" where
  "re_search_index [] = None"
| "re_search_index (c # cs) =
     (if c = CHR ''[''
         \<and> (case dropWhile is_digit cs of [] \<Rightarrow> False | x # _ \<Rightarrow> x = CHR '']'')
      then Some (takeWhile is_digit cs)
      else re_search_index cs)"

text \<open>
  The body shared by the \<open>AnaBeam\<close>, \<open>Beam\<close> and \<open>PhaseCenter\<close> branches: the
  entity is created on its first line, tagged with its own index, then updated.
\<close>

definition set_indexed ::
  "services \<Rightarrow> (int \<rightharpoonup> store) \<Rightarrow> string \<Rightarrow> string \<Rightarrow> string \<Rightarrow> string
     \<Rightarrow> error + (int \<rightharpoonup> store)" where
  "set_indexed svc tbl idx_key dico key value =
     (case re_search_index dico of
        None \<Rightarrow> Inl AttributeError
      | Some ds \<Rightarrow>
          (case py_int ds of
             Inl e \<Rightarrow> Inl e
           | Inr i \<Rightarrow>
               (case (case tbl i of
                        None \<Rightarrow> setitem svc Map.empty idx_key (str_int i)
                      | Some ent \<Rightarrow> Inr ent) of
                  Inl e \<Rightarrow> Inl e
                | Inr ent \<Rightarrow>
                    (case setitem svc ent key value of
                       Inl e \<Rightarrow> Inl e
                     | Inr ent' \<Rightarrow> Inr (tbl(i \<mapsto> ent'))))))"

text \<open>
  The head of the loop body: \<open>dicoName, content = line.split('.', 1)\<close> under
  \<open>try ... except ValueError: pass\<close>. A line without a dot binds nothing.
\<close>

definition bind_line :: "decoder \<Rightarrow> string \<Rightarrow> decoder" where
  "bind_line st line =
     (case split1 line (CHR ''.'') of
        [d, c] \<Rightarrow> st\<lparr>dicoName := Some d, content := Some c\<rparr>
      | _ \<Rightarrow> st)"

text \<open>The chain of tests on the start of the line.\<close>

definition dispatch_line ::
  "services \<Rightarrow> decoder \<Rightarrow> string \<Rightarrow> string \<Rightarrow> string \<Rightarrow> error + decoder" where
  "dispatch_line svc st1 line key value =
     (if startswith line ''Observation'' then
        (case setitem svc (observation st1) key value of
           Inl e \<Rightarrow> Inl e
         | Inr m \<Rightarrow> Inr (st1\<lparr>observation := m\<rparr>))
      else if startswith line ''Output'' then
        (case setitem svc (p_output st1) key value of
           Inl e \<Rightarrow> Inl e
         | Inr m \<Rightarrow> Inr (st1\<lparr>p_output := m\<rparr>))
      else if startswith line ''AnaBeam'' then
        (case set_indexed svc (anabeams st1) ''anaIdx''
                (case dicoName st1 of None \<Rightarrow> [] | Some d \<Rightarrow> d) key value of
           Inl e \<Rightarrow> Inl e
         | Inr t \<Rightarrow> Inr (st1\<lparr>anabeams := t\<rparr>))
      else if startswith line ''Beam'' then
        (case set_indexed svc (digibeams st1) ''digiIdx''
                (case dicoName st1 of None \<Rightarrow> [] | Some d \<Rightarrow> d) key value of
           Inl e \<Rightarrow> Inl e
         | Inr t \<Rightarrow> Inr (st1\<lparr>digibeams := t\<rparr>))
      else if startswith line ''PhaseCenter'' then
        (case set_indexed svc (phase_centers st1) ''pcIdx''
                (case dicoName st1 of None \<Rightarrow> [] | Some d \<Rightarrow> d) key value of
           Inl e \<Rightarrow> Inl e
         | Inr t \<Rightarrow> Inr (st1\<lparr>phase_centers := t\<rparr>))
      else Inr st1)"

text \<open>
  One turn of the loop. \<open>key, value = content.split('=', 1)\<close> is outside the
  \<open>try\<close>: it reads \<open>content\<close> whether or not this line has bound it.
\<close>

definition decode_line :: "services \<Rightarrow> decoder \<Rightarrow> string \<Rightarrow> error + decoder" where
  "decode_line svc st line =
     (case content (bind_line st line) of
        None \<Rightarrow> Inl UnboundLocalError
      | Some c \<Rightarrow>
          (case split1 c (CHR ''='') of
             [key, value] \<Rightarrow> dispatch_line svc (bind_line st line) line key value
           | _ \<Rightarrow> Inl ValueError))"

text \<open>
  The \<open>while line:\<close> loop over the lines \<open>readline\<close> returns; the empty string is
  the end of the file.
\<close>

fun decode_lines :: "services \<Rightarrow> decoder \<Rightarrow> string list \<Rightarrow> error + decoder" where
  "decode_lines svc st [] = Inr st"
| "decode_lines svc st (line # rest) =
     (if line = [] then Inr st
      else (case decode_line svc st line of
              Inl e \<Rightarrow> Inl e
            | Inr st' \<Rightarrow> decode_lines svc st' rest))"

text \<open>
  The whole of \<open>_decodeParset\<close>: the lines of the parset, then the lines of the
  \<open>_user\<close> sidecar file when there is one (\<open>None\<close>: the file cannot be opened).
\<close>

definition decodeParset ::
  "services \<Rightarrow> string list \<Rightarrow> string list option \<Rightarrow> error + decoder" where
  "decodeParset svc lines user_file =
     (case decode_lines svc new_parset lines of
        Inl e \<Rightarrow> Inl e
      | Inr st \<Rightarrow>
          Inr (case user_file of
                 None \<Rightarrow> st
               | Some ls \<Rightarrow>
                   st\<lparr>parset_user :=
                        parset_user st @ concat (takeWhile (\<lambda>l. l \<noteq> []) ls)\<rparr>))"


section \<open>Range compressor: \<open>_get_frequency_dict\<close>\<close>

definition SB_WIDTH :: real where
  \<comment> \<open>in kHz\<close>
  "SB_WIDTH = 195.3125"

text \<open>\<open>np.diff\<close>, \<open>np.where(... != 1)[0] + 1\<close> and \<open>np.split\<close> on one-dimensional arrays.\<close>

definition np_diff :: "int list \<Rightarrow> int list" where
  "np_diff xs = map (\<lambda>(a, b). b - a) (zip xs (tl xs))"

definition split_points :: "int list \<Rightarrow> nat list" where
  "split_points xs =
     map Suc (filter (\<lambda>i. np_diff xs ! i \<noteq> 1) [0..<length (np_diff xs)])"

definition np_split :: "'a list \<Rightarrow> nat list \<Rightarrow> 'a list list" where
  "np_split xs idx =
     (let div_points = 0 # idx @ [length xs]
      in map (\<lambda>(st, en). drop st (take en xs)) (zip div_points (tl div_points)))"

text \<open>\<open>group.min()\<close> and \<open>group.max()\<close>: numpy raises \<open>ValueError\<close> on an empty array.\<close>

fun np_min :: "int list \<Rightarrow> error + int" where
  "np_min [] = Inl ValueError"
| "np_min (x # xs) = Inr (fold min xs x)"

fun np_max :: "int list \<Rightarrow> error + int" where
  "np_max [] = Inl ValueError"
| "np_max (x # xs) = Inr (fold max xs x)"

fun elem_ints :: "elem list \<Rightarrow> int list option" where
  "elem_ints [] = Some []"
| "elem_ints (EInt n # es) = map_option (Cons n) (elem_ints es)"
| "elem_ints (_ # es) = None"

text \<open>
  The stored value as the integer array \<open>np.diff\<close> works on: a scalar is rejected
  with \<open>ValueError\<close> (zero-dimensional input), a list with a string or a time in
  it with \<open>TypeError\<close> (no subtraction).
\<close>

definition int_array :: "pvalue \<Rightarrow> error + int list" where
  "int_array v =
     (case v of
        VList es \<Rightarrow> (case elem_ints es of None \<Rightarrow> Inl TypeError | Some xs \<Rightarrow> Inr xs)
      | _ \<Rightarrow> Inl ValueError)"

record freq_interval =
  fq_gte :: real
  fq_lt :: real
  fq_unit :: string

definition freq_group :: "services \<Rightarrow> int list \<Rightarrow> error + freq_interval" where
  "freq_group svc grp =
     (case np_min grp of
        Inl e \<Rightarrow> Inl e
      | Inr lo \<Rightarrow>
          (case sb2freq svc lo of
             Inl e \<Rightarrow> Inl e
           | Inr flo \<Rightarrow>
               (case np_max grp of
                  Inl e \<Rightarrow> Inl e
                | Inr hi \<Rightarrow>
                    (case sb2freq svc hi of
                       Inl e \<Rightarrow> Inl e
                     | Inr fhi \<Rightarrow>
                         Inr \<lparr>fq_gte = flo, fq_lt = fhi + SB_WIDTH / 1000,
                              fq_unit = ''MHz''\<rparr>))))"

text \<open>A list comprehension whose body can raise: the first error ends it.\<close>

fun traverse :: "('a \<Rightarrow> error + 'b) \<Rightarrow> 'a list \<Rightarrow> error + 'b list" where
  "traverse f [] = Inr []"
| "traverse f (x # xs) =
     (case f x of
        Inl e \<Rightarrow> Inl e
      | Inr y \<Rightarrow> (case traverse f xs of Inl e \<Rightarrow> Inl e | Inr ys \<Rightarrow> Inr (y # ys)))"

definition get_frequency_dict ::
  "services \<Rightarrow> store \<Rightarrow> string \<Rightarrow> error + freq_interval list" where
  "get_frequency_dict svc property field =
     (case getitem property field of
        Inl e \<Rightarrow> Inl e
      | Inr v \<Rightarrow>
          (case int_array v of
             Inl e \<Rightarrow> Inl e
           | Inr subband_list \<Rightarrow>
               traverse (freq_group svc)
                 (np_split subband_list (split_points subband_list))))"

section \<open>Pointing center resolver: \<open>_get_pointing_center_dict\<close>\<close>

text \<open>
  \<open>if test:\<close> on the result of a comparison. On a scalar it is the comparison
  itself; on an array numpy takes the truth value of the array of results, which
  is the one result of a one-element array and a \<open>ValueError\<close> for more than one
  element.
\<close>

definition array_bool :: "services \<Rightarrow> bool list \<Rightarrow> error + bool" where
  "array_bool svc bs =
     (case bs of
        [] \<Rightarrow> (if empty_array_raises svc then Inl ValueError else Inr False)
      | [b] \<Rightarrow> Inr b
      | _ \<Rightarrow> Inl ValueError)"

definition holds :: "services \<Rightarrow> coord \<Rightarrow> (pyfloat \<Rightarrow> bool) \<Rightarrow> error + bool" where
  "holds svc angle test =
     (case angle of
        Scalar x \<Rightarrow> Inr (test x)
      | Array xs \<Rightarrow> array_bool svc (map test xs))"

text \<open>
  The clamp: \<open>angle < valmin\<close> is tried first, \<open>angle > valmax\<close> second, and the
  angle comes back as it is when neither holds. A bound that is returned is the
  scalar the caller passed.
\<close>

definition constrain_angle ::
  "services \<Rightarrow> coord \<Rightarrow> pyfloat \<Rightarrow> pyfloat \<Rightarrow> error + coord" where
  "constrain_angle svc angle valmin valmax =
     (case holds svc angle (\<lambda>x. fless x valmin) of
        Inl e \<Rightarrow> Inl e
      | Inr too_low \<Rightarrow>
          if too_low then Inr (Scalar valmin)
          else
            (case holds svc angle (\<lambda>x. fless valmax x) of
               Inl e \<Rightarrow> Inl e
             | Inr too_high \<Rightarrow> if too_high then Inr (Scalar valmax) else Inr angle))"

text \<open>\<open>float(v)\<close> on a stored value.\<close>

definition py_float :: "services \<Rightarrow> pvalue \<Rightarrow> error + pyfloat" where
  "py_float svc v =
     (case v of
        VStr s \<Rightarrow> (case parse_float svc s of None \<Rightarrow> Inl ValueError | Some x \<Rightarrow> Inr x)
      | VInt n \<Rightarrow> float_int n
      | VBool b \<Rightarrow> Inr (Fin (if b then 1 else 0))
      | _ \<Rightarrow> Inl TypeError)"

text \<open>\<open>float(property.get(key, 0.0))\<close>\<close>

definition get_float :: "services \<Rightarrow> store \<Rightarrow> string \<Rightarrow> error + pyfloat" where
  "get_float svc property key =
     (case property key of None \<Rightarrow> Inr (Fin 0) | Some v \<Rightarrow> py_float svc v)"

text \<open>\<open>v.to(u.deg)\<close>: only a \<open>Quantity\<close> has the method.\<close>

definition to_deg :: "pvalue \<Rightarrow> error + pyfloat" where
  "to_deg v = (case v of VAngle a \<Rightarrow> Inr a | _ \<Rightarrow> Inl AttributeError)"

text \<open>
  \<open>v + x*u.deg\<close>. A quantity in degrees is added to another one. A stored value
  without a unit goes through numpy's \<open>add\<close>, where astropy accepts it only
  when it is zero throughout (\<open>UnitConversionError\<close>, a \<open>ValueError\<close>,
  otherwise): a list of zeros gives the array that holds \<open>x\<close> once per element,
  the empty list the empty array, and a list with a string or a time in it
  cannot be compared with zero (\<open>TypeError\<close>).
\<close>

definition angle_add :: "pvalue \<Rightarrow> pyfloat \<Rightarrow> error + coord" where
  "angle_add v x =
     (case v of
        VAngle a \<Rightarrow> Inr (Scalar (fadd a x))
      | VInt n \<Rightarrow> (if n = 0 then Inr (Scalar x) else Inl ValueError)
      | VBool b \<Rightarrow> (if b then Inl ValueError else Inr (Scalar x))
      | VList es \<Rightarrow>
          (case elem_ints es of
             None \<Rightarrow> Inl TypeError
           | Some ns \<Rightarrow>
               if list_all (\<lambda>n. n = 0) ns then Inr (Array (map (\<lambda>n. x) ns))
               else Inl ValueError)
      | _ \<Rightarrow> Inl TypeError)"

record center =
  ra :: "coord option"
  dec :: "coord option"
  obs_direction_type :: string

text \<open>
  The horizontal coordinates shifted by \<open>decal_az\<close> and \<open>decal_el\<close>, clamped, and
  taken back to the equatorial frame at the middle of the observation. The
  arguments of \<open>SkyCoord\<close> are evaluated from left to right, the \<open>frame\<close> keyword
  last.
\<close>

definition offset_altaz ::
  "services \<Rightarrow> store \<Rightarrow> pvalue \<Rightarrow> real \<Rightarrow> coord \<times> coord \<Rightarrow> error + coord \<times> coord" where
  "offset_altaz svc property start_time duration altaz =
     (case get_float svc property ''decal_az'' of
        Inl e \<Rightarrow> Inl e
      | Inr daz \<Rightarrow>
      (case constrain_angle svc (coord_add (fst altaz) daz) (Fin 0) (Fin 360) of
        Inl e \<Rightarrow> Inl e
      | Inr az \<Rightarrow>
      (case get_float svc property ''decal_el'' of
        Inl e \<Rightarrow> Inl e
      | Inr del \<Rightarrow>
      (case constrain_angle svc (coord_add (snd altaz) del) (Fin 0) (Fin 90) of
        Inl e \<Rightarrow> Inl e
      | Inr el \<Rightarrow>
      (case time_plus svc start_time (duration / 2) of
        Inl e \<Rightarrow> Inl e
      | Inr mid \<Rightarrow> radec_of_altaz svc mid (az, el))))))"

text \<open>
  The additive \<open>decal_ra\<close> and \<open>decal_dec\<close> offsets and the final clamp, as the
  \<open>j2000\<close> and the solar-system branch have them: both offsets are read before
  the first clamp.
\<close>

definition offset_radec ::
  "services \<Rightarrow> store \<Rightarrow> coord \<times> coord \<Rightarrow> error + coord option \<times> coord option" where
  "offset_radec svc property radec =
     (case get_float svc property ''decal_ra'' of
        Inl e \<Rightarrow> Inl e
      | Inr decal_ra \<Rightarrow>
      (case get_float svc property ''decal_dec'' of
        Inl e \<Rightarrow> Inl e
      | Inr decal_dec \<Rightarrow>
      (case constrain_angle svc (coord_add (fst radec) decal_ra) (Fin 0) (Fin 360) of
        Inl e \<Rightarrow> Inl e
      | Inr right_ascension \<Rightarrow>
      (case constrain_angle svc (coord_add (snd radec) decal_dec) (Fin (- 90)) (Fin 90) of
        Inl e \<Rightarrow> Inl e
      | Inr declination \<Rightarrow> Inr (Some right_ascension, Some declination)))))"

definition has_decal_altaz :: "store \<Rightarrow> bool" where
  "has_decal_altaz property = (property ''decal_az'' \<noteq> None \<or> property ''decal_el'' \<noteq> None)"

definition resolve_j2000 ::
  "services \<Rightarrow> store \<Rightarrow> pvalue \<Rightarrow> real \<Rightarrow> error + coord option \<times> coord option" where
  "resolve_j2000 svc property start_time duration =
     (case getitem property ''angle1'' of
        Inl e \<Rightarrow> Inl e
      | Inr a1 \<Rightarrow>
      (case to_deg a1 of
        Inl e \<Rightarrow> Inl e
      | Inr ra0 \<Rightarrow>
      (case getitem property ''angle2'' of
        Inl e \<Rightarrow> Inl e
      | Inr a2 \<Rightarrow>
      (case to_deg a2 of
        Inl e \<Rightarrow> Inl e
      | Inr dec0 \<Rightarrow>
      (case (if has_decal_altaz property then
               (case time_plus svc start_time (duration / 2) of
                  Inl e \<Rightarrow> Inl e
                | Inr mid \<Rightarrow>
                    (case altaz_of_radec svc mid (ra0, dec0) of
                       Inl e \<Rightarrow> Inl e
                     | Inr altaz \<Rightarrow> offset_altaz svc property start_time duration altaz))
             else Inr (Scalar ra0, Scalar dec0)) of
        Inl e \<Rightarrow> Inl e
      | Inr radec \<Rightarrow> offset_radec svc property radec)))))"

text \<open>
  The \<open>azelgeo\<close> branch reads each offset where it uses it, so the clamp of the
  right ascension comes before \<open>decal_dec\<close> is read.
\<close>

definition resolve_azelgeo ::
  "services \<Rightarrow> store \<Rightarrow> pvalue \<Rightarrow> real \<Rightarrow> error + coord option \<times> coord option" where
  "resolve_azelgeo svc property start_time duration =
     (case getitem property ''angle1'' of
        Inl e \<Rightarrow> Inl e
      | Inr a1 \<Rightarrow>
      (case get_float svc property ''decal_az'' of
        Inl e \<Rightarrow> Inl e
      | Inr daz \<Rightarrow>
      (case angle_add a1 daz of
        Inl e \<Rightarrow> Inl e
      | Inr az0 \<Rightarrow>
      (case constrain_angle svc az0 (Fin 0) (Fin 360) of
        Inl e \<Rightarrow> Inl e
      | Inr az \<Rightarrow>
      (case getitem property ''angle2'' of
        Inl e \<Rightarrow> Inl e
      | Inr a2 \<Rightarrow>
      (case get_float svc property ''decal_el'' of
        Inl e \<Rightarrow> Inl e
      | Inr del \<Rightarrow>
      (case angle_add a2 del of
        Inl e \<Rightarrow> Inl e
      | Inr el0 \<Rightarrow>
      (case constrain_angle svc el0 (Fin 0) (Fin 90) of
        Inl e \<Rightarrow> Inl e
      | Inr el \<Rightarrow>
      (case time_plus svc start_time (duration / 2) of
        Inl e \<Rightarrow> Inl e
      | Inr mid \<Rightarrow>
      (case radec_of_altaz svc mid (az, el) of
        Inl e \<Rightarrow> Inl e
      | Inr radec \<Rightarrow>
      (case get_float svc property ''decal_ra'' of
        Inl e \<Rightarrow> Inl e
      | Inr decal_ra \<Rightarrow>
      (case constrain_angle svc (coord_add (fst radec) decal_ra) (Fin 0) (Fin 360) of
        Inl e \<Rightarrow> Inl e
      | Inr right_ascension \<Rightarrow>
      (case get_float svc property ''decal_dec'' of
        Inl e \<Rightarrow> Inl e
      | Inr decal_dec \<Rightarrow>
      (case constrain_angle svc (coord_add (snd radec) decal_dec) (Fin (- 90)) (Fin 90) of
        Inl e \<Rightarrow> Inl e
      | Inr declination \<Rightarrow>
          Inr (Some right_ascension, Some declination)))))))))))))))"

definition resolve_azelfile ::
  "services \<Rightarrow> pvalue \<Rightarrow> real \<Rightarrow> error + coord option \<times> coord option" where
  "resolve_azelfile svc start_time duration =
     (case time_plus svc start_time (duration / 2) of
        Inl e \<Rightarrow> Inl e
      | Inr mid \<Rightarrow>
          (case radec_of_altaz svc mid (Scalar (Fin 0), Scalar (Fin 90)) of
             Inl e \<Rightarrow> Inl e
           | Inr radec \<Rightarrow> Inr (Some (fst radec), Some (snd radec))))"

definition resolve_solar_system ::
  "services \<Rightarrow> store \<Rightarrow> string \<Rightarrow> pvalue \<Rightarrow> real
     \<Rightarrow> error + coord option \<times> coord option" where
  "resolve_solar_system svc property direction_type start_time duration =
     (case time_plus svc start_time (duration / 2) of
        Inl e \<Rightarrow> Inl e
      | Inr mid \<Rightarrow>
      (case solar_system svc direction_type mid of
        Inl e \<Rightarrow> Inl e
      | Inr target \<Rightarrow>
      (case (if has_decal_altaz property
             then offset_altaz svc property start_time duration (snd target)
             else Inr (fst target)) of
        Inl e \<Rightarrow> Inl e
      | Inr radec \<Rightarrow> offset_radec svc property radec)))"

text \<open>
  The resolver writes \<open>directionType\<close> into the store it is given when the entity
  has an \<open>azelFile\<close> field, so it returns the store next to the result.
\<close>

definition get_pointing_center_dict ::
  "services \<Rightarrow> store \<Rightarrow> error + center \<times> store" where
  "get_pointing_center_dict svc property0 =
     (case getitem property0 ''duration'' of
        Inl e \<Rightarrow> Inl e
      | Inr dv \<Rightarrow>
      (case time_delta svc dv of
        Inl e \<Rightarrow> Inl e
      | Inr duration \<Rightarrow>
      (case getitem property0 ''startTime'' of
        Inl e \<Rightarrow> Inl e
      | Inr start_time \<Rightarrow>
      (case time_plus svc start_time duration of
        Inl e \<Rightarrow> Inl e
      | Inr stop_time \<Rightarrow>
      (case (if property0 ''azelFile'' \<noteq> None
             then setitem svc property0 ''directionType'' ''azelgeo_azelfile''
             else Inr property0) of
        Inl e \<Rightarrow> Inl e
      | Inr property \<Rightarrow>
      (case getitem property ''directionType'' of
        Inl e \<Rightarrow> Inl e
      | Inr (VStr dt) \<Rightarrow>
          (let direction_type = lower dt in
           case (if direction_type = ''j2000'' then
                   resolve_j2000 svc property start_time duration
                 else if direction_type = ''azelgeo'' then
                   resolve_azelgeo svc property start_time duration
                 else if direction_type = ''azelgeo_azelfile'' then
                   resolve_azelfile svc start_time duration
                 else if direction_type = ''natif'' then
                   Inr (None, None)
                 else
                   resolve_solar_system svc property direction_type start_time duration) of
             Inl e \<Rightarrow> Inl e
           | Inr (right_ascension, declination) \<Rightarrow>
               Inr (\<lparr>ra = right_ascension, dec = declination,
                     obs_direction_type = direction_type\<rparr>, property))
      | Inr _ \<Rightarrow> Inl AttributeError))))))"


section \<open>Receiver settings\<close>

subsection \<open>The embedded parameter string: \<open>_parse_parameters\<close>\<close>

text \<open>
  The values of a receiver document. \<open>RQuantity v u\<close> is \<open>{"value": v, "unit": u}\<close>
  and \<open>RProp v u\<close> the same around a stored value, with an optional unit.
  \<open>RNum\<close> is a float literal of the source.
\<close>

datatype rval =
    RStr string | RBool bool | RInt int | RNum real
  | RQuantity pyfloat string | RProp pvalue "string option" | RFreq "freq_interval list"

type_synonym receiver = "string \<rightharpoonup> rval"

text \<open>
  The two dictionary comprehensions: \<open>key=value\<close> tokens first, then the bare
  tokens, right-stripped, as flags. A later token overrides an earlier one.
\<close>

definition config_pairs :: "string list \<Rightarrow> receiver" where
  "config_pairs params =
     fold (\<lambda>param m.
             if CHR ''='' \<in> set param
             then m(split param ''='' ! 0 \<mapsto> RStr (split param ''='' ! 1))
             else m)
          params Map.empty"

definition config_flags :: "string list \<Rightarrow> receiver \<Rightarrow> receiver" where
  "config_flags params configs =
     fold (\<lambda>param m. if CHR ''='' \<notin> set param then m(rstrip param \<mapsto> RBool True) else m)
          params configs"

definition parse_parameters :: "string \<Rightarrow> bool \<Rightarrow> string \<times> receiver" where
  "parse_parameters parameters0 pulsar =
     (let parameters = lower parameters0;
          mode = hd (split parameters '':'')
      in if pulsar
         then (mode, config_flags (split parameters ''--'')
                       (config_pairs (split parameters ''--'')))
         else (mode, config_flags (split parameters ''--'')
                       (config_pairs (split_ws parameters))))"

subsection \<open>The handlers of \<open>BEAM_SETTINGS\<close>\<close>

text \<open>Python's truth value of a configuration entry, \<open>int(v)\<close> and \<open>float(v)\<close> on it.\<close>

definition truthy :: "rval option \<Rightarrow> bool" where
  "truthy v =
     (case v of
        None \<Rightarrow> False
      | Some (RStr s) \<Rightarrow> s \<noteq> []
      | Some (RBool b) \<Rightarrow> b
      | Some (RInt n) \<Rightarrow> n \<noteq> 0
      | Some (RNum x) \<Rightarrow> x \<noteq> 0
      | Some _ \<Rightarrow> True)"

definition cfg_int :: "rval \<Rightarrow> error + int" where
  "cfg_int v =
     (case v of
        RStr s \<Rightarrow> py_int s
      | RBool b \<Rightarrow> Inr (if b then 1 else 0)
      | RInt n \<Rightarrow> Inr n
      | RNum x \<Rightarrow> Inr (if 0 \<le> x then \<lfloor>x\<rfloor> else \<lceil>x\<rceil>)
      | _ \<Rightarrow> Inl TypeError)"

definition cfg_float :: "services \<Rightarrow> rval \<Rightarrow> error + pyfloat" where
  "cfg_float svc v =
     (case v of
        RStr s \<Rightarrow> (case parse_float svc s of None \<Rightarrow> Inl ValueError | Some x \<Rightarrow> Inr x)
      | RBool b \<Rightarrow> Inr (Fin (if b then 1 else 0))
      | RInt n \<Rightarrow> float_int n
      | RNum x \<Rightarrow> Inr (Fin x)
      | _ \<Rightarrow> Inl TypeError)"

definition cfg_get :: "receiver \<Rightarrow> string \<Rightarrow> error + rval" where
  "cfg_get config key = (case config key of None \<Rightarrow> Inl KeyError | Some v \<Rightarrow> Inr v)"

text \<open>\<open>version < other\<close> on tuples of integers.\<close>

fun tuple_less :: "int list \<Rightarrow> int list \<Rightarrow> bool" where
  "tuple_less [] [] = False"
| "tuple_less [] (y # ys) = True"
| "tuple_less (x # xs) [] = False"
| "tuple_less (x # xs) (y # ys) = (x < y \<or> (x = y \<and> tuple_less xs ys))"

text \<open>\<open>try: ... except KeyError: handler\<close>\<close>

definition except_KeyError :: "error + 'a \<Rightarrow> error + 'a \<Rightarrow> error + 'a" where
  "except_KeyError body handler =
     (case body of Inl e \<Rightarrow> (if e = KeyError then handler else Inl e) | Inr x \<Rightarrow> Inr x)"

text \<open>
  The warning of a handler is not kept, but its message is built from a field of
  the beam, whose lookup can raise in turn.
\<close>

definition warn_with :: "store \<Rightarrow> string \<Rightarrow> 'a \<Rightarrow> error + 'a" where
  "warn_with property key result =
     (case getitem property key of Inl e \<Rightarrow> Inl e | Inr _ \<Rightarrow> Inr result)"

text \<open>\<open>_parse_parameters(beam["parameters"], pulsar)\<close>: the stored value has to be a string.\<close>

definition beam_parameters :: "store \<Rightarrow> bool \<Rightarrow> error + string \<times> receiver" where
  "beam_parameters beam pulsar =
     (case getitem beam ''parameters'' of
        Inl e \<Rightarrow> Inl e
      | Inr (VStr s) \<Rightarrow> Inr (parse_parameters s pulsar)
      | Inr _ \<Rightarrow> Inl AttributeError)"

definition default_setting :: "services \<Rightarrow> store \<Rightarrow> store \<Rightarrow> int list \<Rightarrow> error + receiver" where
  "default_setting svc digibeam outp version =
     (case get_frequency_dict svc digibeam ''subbandList'' of
        Inl e \<Rightarrow> Inl e
      | Inr freqs \<Rightarrow>
          Inr [''name'' \<mapsto> RStr ''LaNewBa'',
               ''dt'' \<mapsto> RQuantity (Fin 1) ''s'',
               ''df'' \<mapsto> RQuantity (Fin SB_WIDTH) ''kHz'',
               ''frequency'' \<mapsto> RFreq freqs])"

definition n_polars :: "receiver \<Rightarrow> int" where
  "n_polars config = (if truthy (config ''onlyi'') then 1 else 4)"

definition pulsar_document ::
  "services \<Rightarrow> store \<Rightarrow> string \<Rightarrow> receiver \<Rightarrow> error + receiver" where
  "pulsar_document svc digibeam mode config =
     (if mode = ''fold'' then
        (case cfg_get config ''src'' of
           Inl e \<Rightarrow> Inl e
         | Inr src \<Rightarrow>
             (case get_frequency_dict svc digibeam ''subbandList'' of
                Inl e \<Rightarrow> Inl e
              | Inr freqs \<Rightarrow>
                  Inr [''name'' \<mapsto> RStr ''undysputed'',
                       ''mode'' \<mapsto> RStr ''pulsar_fold'',
                       ''source_name'' \<mapsto> src,
                       ''n_polars'' \<mapsto> RInt (n_polars config),
                       ''frequency'' \<mapsto> RFreq freqs]))
      else if mode = ''single'' then
        (case cfg_get config ''src'' of
           Inl e \<Rightarrow> Inl e
         | Inr src \<Rightarrow>
             (case cfg_get config ''dstime'' of
                Inl e \<Rightarrow> Inl e
              | Inr ds \<Rightarrow>
                  (case cfg_int ds of
                     Inl e \<Rightarrow> Inl e
                   | Inr downsampling \<Rightarrow>
                       (case get_frequency_dict svc digibeam ''subbandList'' of
                          Inl e \<Rightarrow> Inl e
                        | Inr freqs \<Rightarrow>
                            Inr [''name'' \<mapsto> RStr ''undysputed'',
                                 ''mode'' \<mapsto> RStr ''pulsar_single'',
                                 ''source_name'' \<mapsto> src,
                                 ''downsampling'' \<mapsto> RInt downsampling,
                                 ''n_polars'' \<mapsto> RInt (n_polars config),
                                 ''frequency'' \<mapsto> RFreq freqs]))))
      else if mode = ''waveolaf'' then
        (case cfg_get config ''src'' of
           Inl e \<Rightarrow> Inl e
         | Inr src \<Rightarrow>
             (case get_frequency_dict svc digibeam ''subbandList'' of
                Inl e \<Rightarrow> Inl e
              | Inr freqs \<Rightarrow>
                  Inr [''name'' \<mapsto> RStr ''undysputed'',
                       ''mode'' \<mapsto> RStr ''pulsar_waveolaf'',
                       ''source_name'' \<mapsto> src,
                       ''frequency'' \<mapsto> RFreq freqs]))
      else if mode = ''wave'' then
        (case cfg_get config ''src'' of
           Inl e \<Rightarrow> Inl e
         | Inr src \<Rightarrow>
             (case get_frequency_dict svc digibeam ''subbandList'' of
                Inl e \<Rightarrow> Inl e
              | Inr freqs \<Rightarrow>
                  Inr [''name'' \<mapsto> RStr ''undysputed'',
                       ''mode'' \<mapsto> RStr ''pulsar_wave'',
                       ''source_name'' \<mapsto> src,
                       ''frequency'' \<mapsto> RFreq freqs]))
      else Inr Map.empty)"

definition pulsar_setting :: "services \<Rightarrow> store \<Rightarrow> store \<Rightarrow> int list \<Rightarrow> error + receiver" where
  "pulsar_setting svc digibeam outp version =
     (case except_KeyError (map_sum id Some (beam_parameters digibeam True))
             (warn_with digibeam ''noBeam'' None) of
        Inl e \<Rightarrow> Inl e
      | Inr None \<Rightarrow> Inr Map.empty
      | Inr (Some (mode, config)) \<Rightarrow> pulsar_document svc digibeam mode config)"

definition waveform_setting :: "services \<Rightarrow> store \<Rightarrow> store \<Rightarrow> int list \<Rightarrow> error + receiver" where
  "waveform_setting svc digibeam outp version =
     (case get_frequency_dict svc digibeam ''subbandList'' of
        Inl e \<Rightarrow> Inl e
      | Inr freqs \<Rightarrow>
          Inr [''name'' \<mapsto> RStr ''undysputed'',
               ''mode'' \<mapsto> RStr ''waveform'',
               ''frequency'' \<mapsto> RFreq freqs])"

definition dynamicspectrum_document ::
  "services \<Rightarrow> store \<Rightarrow> store \<Rightarrow> int list \<Rightarrow> receiver \<Rightarrow> error + receiver" where
  "dynamicspectrum_document svc digibeam outp version config =
     (if truthy (config ''tf: rawrt'') then waveform_setting svc digibeam outp version
      else
        (case cfg_get config ''dt'' of
           Inl e \<Rightarrow> Inl e
         | Inr dtv \<Rightarrow>
         (case cfg_float svc dtv of
           Inl e \<Rightarrow> Inl e
         | Inr dt \<Rightarrow>
         (case cfg_get config ''df'' of
           Inl e \<Rightarrow> Inl e
         | Inr dfv \<Rightarrow>
         (case cfg_float svc dfv of
           Inl e \<Rightarrow> Inl e
         | Inr df \<Rightarrow>
         (case get_frequency_dict svc digibeam ''subbandList'' of
           Inl e \<Rightarrow> Inl e
         | Inr freqs \<Rightarrow>
             Inr [''name'' \<mapsto> RStr ''undysputed'',
                  ''mode'' \<mapsto> RStr ''tf'',
                  ''dt'' \<mapsto> RQuantity dt ''ms'',
                  ''df'' \<mapsto> RQuantity df ''kHz'',
                  ''frequency'' \<mapsto> RFreq freqs]))))))"

definition dynamicspectrum_setting ::
  "services \<Rightarrow> store \<Rightarrow> store \<Rightarrow> int list \<Rightarrow> error + receiver" where
  "dynamicspectrum_setting svc digibeam outp version =
     (case except_KeyError (map_sum id snd (beam_parameters digibeam False))
             (warn_with digibeam ''noBeam''
                [''dt'' \<mapsto> RNum 5, ''df'' \<mapsto> RNum 6.1]) of
        Inl e \<Rightarrow> Inl e
      | Inr config \<Rightarrow>
          except_KeyError (dynamicspectrum_document svc digibeam outp version config)
            (warn_with digibeam ''toDo'' Map.empty))"

definition nickel_setting :: "services \<Rightarrow> store \<Rightarrow> store \<Rightarrow> int list \<Rightarrow> error + receiver" where
  "nickel_setting svc phasecenter outp version =
     (case getitem outp ''nri_channelization'' of
        Inl e \<Rightarrow> Inl e
      | Inr chan \<Rightarrow>
      (case getitem outp ''nri_dumpTime'' of
        Inl e \<Rightarrow> Inl e
      | Inr dump \<Rightarrow>
      (case (if \<not> tuple_less version [1, 0] then
               (case except_KeyError (map_sum id (\<lambda>_. ()) (beam_parameters phasecenter True))
                       (warn_with phasecenter ''noBeam'' ()) of
                  Inl e \<Rightarrow> Inl e
                | Inr _ \<Rightarrow> get_frequency_dict svc phasecenter ''subbandList'')
             else get_frequency_dict svc outp ''nri_subbandList'') of
        Inl e \<Rightarrow> Inl e
      | Inr freqs \<Rightarrow>
          Inr [''name'' \<mapsto> RStr ''nickel'',
               ''channelization'' \<mapsto> RProp chan None,
               ''dumptime'' \<mapsto> RProp dump (Some ''s''),
               ''frequency'' \<mapsto> RFreq freqs])))"

text \<open>
  \<open>"nickel" in output.get("nri_receivers", [])\<close>: membership in a list, a substring
  test on a string, \<open>TypeError\<close> on a value that is not iterable.
\<close>

definition nickel_in :: "pvalue option \<Rightarrow> error + bool" where
  "nickel_in v =
     (case v of
        None \<Rightarrow> Inr False
      | Some (VList es) \<Rightarrow> Inr (EStr ''nickel'' \<in> set es)
      | Some (VStr s) \<Rightarrow> Inr (contains s ''nickel'')
      | Some _ \<Rightarrow> Inl TypeError)"

definition tbd_setting :: "services \<Rightarrow> store \<Rightarrow> store \<Rightarrow> int list \<Rightarrow> error + receiver" where
  "tbd_setting svc digibeam outp version =
     (case nickel_in (outp ''nri_receivers'') of
        Inl e \<Rightarrow> Inl e
      | Inr nickel \<Rightarrow>
          if nickel \<and> tuple_less version [1, 0]
          then nickel_setting svc digibeam outp version
          else default_setting svc digibeam outp version)"

definition BEAM_SETTINGS ::
  "string \<Rightarrow> (services \<Rightarrow> store \<Rightarrow> store \<Rightarrow> int list \<Rightarrow> error + receiver) option" where
  "BEAM_SETTINGS key =
     (if key = ''none'' then Some default_setting
      else if key = ''pulsar'' then Some pulsar_setting
      else if key = ''waveform'' then Some waveform_setting
      else if key = ''dynamicspectrum'' then Some dynamicspectrum_setting
      else if key = ''tbd'' then Some tbd_setting
      else if key = ''nickel'' then Some nickel_setting
      else None)"


section \<open>Document builder: \<open>_JsonEntry\<close>\<close>

text \<open>\<open>np.round(x, 3)\<close>: to the nearest multiple of 0.001, a tie to the even one.\<close>

definition round_half_even :: "real \<Rightarrow> int" where
  "round_half_even x =
     (let f = \<lfloor>x\<rfloor>; r = x - of_int f
      in if r < 1 / 2 then f else if r > 1 / 2 then f + 1
         else if even f then f else f + 1)"

definition np_round3 :: "real \<Rightarrow> real" where
  "np_round3 x = of_int (round_half_even (x * 1000)) / 1000"

record time_dict =
  t_gte :: string
  t_lte :: string
  t_duration :: real

definition get_time_dict :: "services \<Rightarrow> store \<Rightarrow> error + time_dict" where
  "get_time_dict svc property =
     (case getitem property ''duration'' of
        Inl e \<Rightarrow> Inl e
      | Inr dv \<Rightarrow>
      (case time_delta svc dv of
        Inl e \<Rightarrow> Inl e
      | Inr duration \<Rightarrow>
      (case getitem property ''startTime'' of
        Inl e \<Rightarrow> Inl e
      | Inr start_time \<Rightarrow>
      (case time_plus svc start_time duration of
        Inl e \<Rightarrow> Inl e
      | Inr stop_time \<Rightarrow>
          (case start_time of
             VTime t \<Rightarrow>
               Inr \<lparr>t_gte = isot svc t, t_lte = isot svc stop_time,
                    t_duration = np_round3 duration\<rparr>
           | _ \<Rightarrow> Inl AttributeError)))))"

text \<open>
  A pointing and a field-of-view, with the keys the builder gives them. The list
  \<open>mini_arrays\<close> holds the \<open>value\<close> of each \<open>{"value": ...}\<close> entry. The
  observation metadata, which no function below reads, is left out of the entry.
\<close>

record pointing =
  pt_idx :: int
  pt_name :: pvalue
  pt_center :: center
  pt_time :: time_dict
  pt_receiver :: receiver

record fov =
  fov_idx :: int
  fov_pointings :: "pointing list"
  fov_name :: pvalue
  fov_center :: center
  fov_time :: time_dict
  mini_arrays :: "elem list"
  antennas :: "elem list"

record json_entry =
  je_output :: store
  fovs :: "fov list"
  pointings :: "(nat \<times> pointing) list"

definition fov_indices :: "json_entry \<Rightarrow> int list" where
  "fov_indices je = map fov_idx (fovs je)"

text \<open>\<open>np.where(self.fov_indices == v)[0]\<close>: the positions where the comparison holds.\<close>

definition where_equal :: "services \<Rightarrow> int list \<Rightarrow> pvalue \<Rightarrow> error + nat list" where
  "where_equal svc idx v =
     (case v of
        VInt n \<Rightarrow> Inr (filter (\<lambda>i. idx ! i = n) [0..<length idx])
      | VBool b \<Rightarrow> Inr (filter (\<lambda>i. idx ! i = (if b then 1 else 0)) [0..<length idx])
      | VStr s \<Rightarrow> Inr []
      | _ \<Rightarrow> where_other svc idx v)"

text \<open>\<open>BEAM_SETTINGS[beam.get("toDo", "none").lower()]\<close>\<close>

definition select_setting ::
  "store \<Rightarrow> error + (services \<Rightarrow> store \<Rightarrow> store \<Rightarrow> int list \<Rightarrow> error + receiver)" where
  "select_setting beam =
     (case (case beam ''toDo'' of
              None \<Rightarrow> Inr ''none''
            | Some (VStr s) \<Rightarrow> Inr (lower s)
            | Some _ \<Rightarrow> Inl AttributeError) of
        Inl e \<Rightarrow> Inl e
      | Inr key \<Rightarrow> (case BEAM_SETTINGS key of None \<Rightarrow> Inl KeyError | Some f \<Rightarrow> Inr f))"

text \<open>
  \<open>add_pointing\<close> returns the entry with the pointing appended, and the beam's
  store, which the resolver may have written to.
\<close>

definition add_pointing ::
  "services \<Rightarrow> int \<Rightarrow> store \<Rightarrow> int list
     \<Rightarrow> (services \<Rightarrow> store \<Rightarrow> store \<Rightarrow> int list \<Rightarrow> error + receiver) option
     \<Rightarrow> json_entry \<Rightarrow> error + json_entry \<times> store" where
  "add_pointing svc index beam0 parset_version pointing_setting_func je =
     (case getitem beam0 ''target'' of
        Inl e \<Rightarrow> Inl e
      | Inr name \<Rightarrow>
      (case get_pointing_center_dict svc beam0 of
        Inl e \<Rightarrow> Inl e
      | Inr (cen, beam) \<Rightarrow>
      (case get_time_dict svc beam of
        Inl e \<Rightarrow> Inl e
      | Inr tim \<Rightarrow>
      (case (case pointing_setting_func of
               None \<Rightarrow> select_setting beam
             | Some f \<Rightarrow> Inr f) of
        Inl e \<Rightarrow> Inl e
      | Inr func \<Rightarrow>
      (case func svc beam (je_output je) parset_version of
        Inl e \<Rightarrow> Inl e
      | Inr recv \<Rightarrow>
      (case getitem beam ''noBeam'' of
        Inl e \<Rightarrow> Inl e
      | Inr no_beam \<Rightarrow>
      (case where_equal svc (fov_indices je) no_beam of
        Inl e \<Rightarrow> Inl e
      | Inr [] \<Rightarrow> Inl IndexError
      | Inr (pos # _) \<Rightarrow>
          Inr (je\<lparr>pointings :=
                     pointings je @
                       [(pos,
                         \<lparr>pt_idx = index, pt_name = name, pt_center = cen,
                          pt_time = tim, pt_receiver = recv\<rparr>)]\<rparr>,
               beam))))))))"

text \<open>
  The \<open>data\<close> property appends every stored pointing to the \<open>pointings\<close> list of
  its field-of-view. The copy it works on is shallow, so the entry's own
  field-of-views are the ones that change.
\<close>

fun attach_pointings :: "(nat \<times> pointing) list \<Rightarrow> fov list \<Rightarrow> error + fov list" where
  "attach_pointings [] fs = Inr fs"
| "attach_pointings ((pos, p) # ps) fs =
     (if pos < length fs
      then attach_pointings ps
             (fs[pos := (fs ! pos)\<lparr>fov_pointings := fov_pointings (fs ! pos) @ [p]\<rparr>])
      else Inl IndexError)"

definition data :: "json_entry \<Rightarrow> error + fov list \<times> json_entry" where
  "data je =
     (case attach_pointings (pointings je) (fovs je) of
        Inl e \<Rightarrow> Inl e
      | Inr fs \<Rightarrow> Inr (fs, je\<lparr>fovs := fs\<rparr>))"

subsection \<open>\<open>remove_unused_miniarrays\<close>\<close>

text \<open>
  The inner loop over the pointings of a field-of-view. Its \<open>continue\<close> goes on
  with the next pointing, as the end of the loop body does, so the two branches
  of the test are the same; the loop can only raise, on a receiver document
  without a \<open>name\<close>.
\<close>

fun scan_receivers :: "pointing list \<Rightarrow> error + unit" where
  "scan_receivers [] = Inr ()"
| "scan_receivers (p # ps) =
     (case cfg_get (pt_receiver p) ''name'' of
        Inl e \<Rightarrow> Inl e
      | Inr name \<Rightarrow>
          (if RStr ''nickel'' = name then scan_receivers ps else scan_receivers ps))"

definition is_remote :: "elem \<Rightarrow> bool" where
  "is_remote ma = (case ma of EInt n \<Rightarrow> n > 96 | _ \<Rightarrow> False)"

text \<open>
  One turn of the outer loop. \<open>mas_in_fov > 96\<close> needs a numeric array: numpy
  raises \<open>TypeError\<close> when a value is a string or a time.
\<close>

definition prune_fov :: "fov \<Rightarrow> error + fov" where
  "prune_fov f =
     (case elem_ints (mini_arrays f) of
        None \<Rightarrow> Inl TypeError
      | Some mas_in_fov \<Rightarrow>
          if \<not> list_ex (\<lambda>n. n > 96) mas_in_fov then Inr f
          else
            (case scan_receivers (fov_pointings f) of
               Inl e \<Rightarrow> Inl e
             | Inr _ \<Rightarrow>
                 Inr (f\<lparr>mini_arrays := filter (\<lambda>ma. \<not> is_remote ma) (mini_arrays f)\<rparr>)))"

definition remove_unused_miniarrays :: "json_entry \<Rightarrow> error + json_entry" where
  "remove_unused_miniarrays je =
     (case traverse prune_fov (fovs je) of
        Inl e \<Rightarrow> Inl e
      | Inr fs \<Rightarrow> Inr (je\<lparr>fovs := fs\<rparr>))"


section \<open>Schema-driven writer: \<open>ParsetUser\<close>\<close>

subsection \<open>Blocks and their configuration\<close>

text \<open>The values a user hands to the writer, and the ones it stores.\<close>

datatype wvalue = WStr string | WInt int | WBool bool | WTime real | WDelta real | WNone

text \<open>
  Modelled from the spec: the registry \<open>PARSET_OPTIONS\<close> is imported from a module
  that is not among the sources. Following the data model of the spec, it maps a
  block name to an ordered dictionary from field name to an entry made of a
  default value, a unit, a required flag, an optional syntax pattern and a
  modified flag. The registry itself is a parameter of every function below.
\<close>

record entry =
  e_value :: wvalue
  e_unit :: string
  e_required :: bool
  e_syntax :: "string option"
  e_modified :: bool

type_synonym configuration = "(string \<times> entry) list"

type_synonym registry = "(string \<times> configuration) list"

type_synonym kwargs = "(string \<times> wvalue) list"

text \<open>
  The conversions at the head of \<open>_modify_properties\<close>: a time becomes its
  ISO text followed by \<open>Z\<close>, a duration its rounded seconds followed by \<open>s\<close>, a
  boolean its lower-case name.
\<close>

definition writer_value :: "services \<Rightarrow> wvalue \<Rightarrow> wvalue" where
  "writer_value svc v =
     (case v of
        WTime t \<Rightarrow> WStr (isot svc t @ ''Z'')
      | WDelta sec \<Rightarrow> WStr (str_int (round_half_even sec) @ ''s'')
      | WBool b \<Rightarrow> WStr (if b then ''true'' else ''false'')
      | _ \<Rightarrow> v)"

record block =
  field :: string
  configuration :: configuration

record beam_block = block +
  index :: int

record analog_beam = beam_block +
  numerical_beams :: "beam_block list"

record observation_block = block +
  analog_beams :: "analog_beam list"

record parset_user =
  user_observation :: observation_block
  user_output :: block

definition set_entry :: "services \<Rightarrow> string \<Rightarrow> wvalue \<Rightarrow> configuration \<Rightarrow> configuration" where
  "set_entry svc key v conf =
     map (\<lambda>(k, e). if k = key
                    then (k, e\<lparr>e_value := writer_value svc v, e_modified := True\<rparr>)
                    else (k, e)) conf"

text \<open>\<open>_modify_properties\<close>: a key the configuration does not have is only logged.\<close>

definition modify_configuration :: "services \<Rightarrow> kwargs \<Rightarrow> configuration \<Rightarrow> configuration" where
  "modify_configuration svc kw conf =
     fold (\<lambda>(key, v) c. if key \<in> fst ` set c then set_entry svc key v c else c) kw conf"

definition modify_properties ::
  "services \<Rightarrow> kwargs \<Rightarrow> 'a block_scheme \<Rightarrow> 'a block_scheme" where
  "modify_properties svc kw b =
     b\<lparr>configuration := modify_configuration svc kw (configuration b)\<rparr>"

text \<open>\<open>block[key]\<close>: the value of the entry.\<close>

definition block_getitem :: "'a block_scheme \<Rightarrow> string \<Rightarrow> error + wvalue" where
  "block_getitem b key =
     (case map_of (configuration b) key of
        None \<Rightarrow> Inl KeyError
      | Some e \<Rightarrow> Inr (e_value e))"

text \<open>
  \<open>_ParsetBlock.__init__\<close>: the block starts from a copy of the registry's
  configuration for its field. Here a configuration is a value, so the copy is
  the configuration itself; the section on the object store below models the
  entries as shared objects and \<open>deepcopy\<close> as an allocation.
\<close>

definition ParsetBlock :: "registry \<Rightarrow> string \<Rightarrow> error + block" where
  "ParsetBlock reg fld =
     (case map_of reg fld of
        None \<Rightarrow> Inl KeyError
      | Some conf \<Rightarrow> Inr \<lparr>field = fld, configuration = conf\<rparr>)"

definition BeamParsetBlock ::
  "services \<Rightarrow> registry \<Rightarrow> string \<Rightarrow> kwargs \<Rightarrow> error + beam_block" where
  "BeamParsetBlock svc reg fld kw =
     (case ParsetBlock reg fld of
        Inl e \<Rightarrow> Inl e
      | Inr b \<Rightarrow> Inr (modify_properties svc kw (block.extend b \<lparr>index = 0\<rparr>)))"

definition NumericalBeamParsetBlock ::
  "services \<Rightarrow> registry \<Rightarrow> kwargs \<Rightarrow> error + beam_block" where
  "NumericalBeamParsetBlock svc reg kw = BeamParsetBlock svc reg ''Beam'' kw"

definition AnalogBeamParsetBlock ::
  "services \<Rightarrow> registry \<Rightarrow> kwargs \<Rightarrow> error + analog_beam" where
  "AnalogBeamParsetBlock svc reg kw =
     (case BeamParsetBlock svc reg ''Anabeam'' kw of
        Inl e \<Rightarrow> Inl e
      | Inr b \<Rightarrow> Inr (beam_block.extend b \<lparr>numerical_beams = []\<rparr>))"

definition propagate_index :: "services \<Rightarrow> analog_beam \<Rightarrow> analog_beam" where
  "propagate_index svc anabeam =
     anabeam\<lparr>numerical_beams :=
       map (modify_properties svc [(''noBeam'', WInt (index anabeam))])
           (numerical_beams anabeam)\<rparr>"

definition OutputParsetBlock :: "services \<Rightarrow> registry \<Rightarrow> kwargs \<Rightarrow> error + block" where
  "OutputParsetBlock svc reg kw =
     (case ParsetBlock reg ''Output'' of
        Inl e \<Rightarrow> Inl e
      | Inr b \<Rightarrow> Inr (modify_properties svc kw b))"

definition ObservationParsetBlock ::
  "services \<Rightarrow> registry \<Rightarrow> kwargs \<Rightarrow> error + observation_block" where
  "ObservationParsetBlock svc reg kw =
     (case ParsetBlock reg ''Observation'' of
        Inl e \<Rightarrow> Inl e
      | Inr b \<Rightarrow>
          Inr (block.extend (modify_properties svc kw b) \<lparr>analog_beams = []\<rparr>))"

definition ParsetUser :: "services \<Rightarrow> registry \<Rightarrow> error + parset_user" where
  "ParsetUser svc reg =
     (case ObservationParsetBlock svc reg [] of
        Inl e \<Rightarrow> Inl e
      | Inr obs \<Rightarrow>
          (case OutputParsetBlock svc reg [] of
             Inl e \<Rightarrow> Inl e
           | Inr outp \<Rightarrow> Inr \<lparr>user_observation = obs, user_output = outp\<rparr>))"

subsection \<open>Renumbering\<close>

text \<open>The two nested iterations of \<open>_updates_numbeams_indices\<close>, with their counter.\<close>

fun number_numbeams :: "int \<Rightarrow> beam_block list \<Rightarrow> beam_block list" where
  "number_numbeams numbeams_counter [] = []"
| "number_numbeams numbeams_counter (numbeam # rest) =
     numbeam\<lparr>index := numbeams_counter\<rparr> # number_numbeams (numbeams_counter + 1) rest"

fun number_in_anabeams :: "int \<Rightarrow> analog_beam list \<Rightarrow> analog_beam list" where
  "number_in_anabeams numbeams_counter [] = []"
| "number_in_anabeams numbeams_counter (anabeam # rest) =
     anabeam\<lparr>numerical_beams := number_numbeams numbeams_counter (numerical_beams anabeam)\<rparr>
       # number_in_anabeams (numbeams_counter + int (length (numerical_beams anabeam))) rest"

definition updates_numbeams_indices :: "parset_user \<Rightarrow> parset_user" where
  "updates_numbeams_indices pu =
     pu\<lparr>user_observation :=
          (user_observation pu)\<lparr>analog_beams :=
             number_in_anabeams 0 (analog_beams (user_observation pu))\<rparr>\<rparr>"

fun number_anabeams :: "services \<Rightarrow> int \<Rightarrow> analog_beam list \<Rightarrow> analog_beam list" where
  "number_anabeams svc anabeams_counter [] = []"
| "number_anabeams svc anabeams_counter (anabeam # rest) =
     propagate_index svc (anabeam\<lparr>index := anabeams_counter\<rparr>)
       # number_anabeams svc (anabeams_counter + 1) rest"

definition updates_anabeams_indices :: "services \<Rightarrow> parset_user \<Rightarrow> parset_user" where
  "updates_anabeams_indices svc pu =
     updates_numbeams_indices
       (pu\<lparr>user_observation :=
             (user_observation pu)\<lparr>analog_beams :=
                number_anabeams svc 0 (analog_beams (user_observation pu))\<rparr>\<rparr>)"

subsection \<open>Structural operations\<close>

text \<open>Python's \<open>xs[i]\<close> and \<open>del xs[i]\<close>: a negative index counts from the end.\<close>

definition py_position :: "'a list \<Rightarrow> int \<Rightarrow> error + nat" where
  "py_position xs i =
     (let n = int (length xs); j = (if i < 0 then n + i else i)
      in if 0 \<le> j \<and> j < n then Inr (nat j) else Inl IndexError)"

definition py_del :: "'a list \<Rightarrow> int \<Rightarrow> error + 'a list" where
  "py_del xs i =
     (case py_position xs i of
        Inl e \<Rightarrow> Inl e
      | Inr j \<Rightarrow> Inr (take j xs @ drop (Suc j) xs))"

definition add_analog_beam ::
  "services \<Rightarrow> registry \<Rightarrow> kwargs \<Rightarrow> parset_user \<Rightarrow> error + parset_user" where
  "add_analog_beam svc reg kw pu =
     (case AnalogBeamParsetBlock svc reg kw of
        Inl e \<Rightarrow> Inl e
      | Inr anabeam \<Rightarrow>
          Inr (updates_anabeams_indices svc
                 (pu\<lparr>user_observation :=
                       (user_observation pu)\<lparr>analog_beams :=
                          analog_beams (user_observation pu) @ [anabeam]\<rparr>\<rparr>)))"

definition remove_analog_beam ::
  "services \<Rightarrow> int \<Rightarrow> parset_user \<Rightarrow> error + parset_user" where
  "remove_analog_beam svc anabeam_index pu =
     (case py_del (analog_beams (user_observation pu)) anabeam_index of
        Inl e \<Rightarrow> Inl e
      | Inr abs' \<Rightarrow>
          Inr (updates_anabeams_indices svc
                 (pu\<lparr>user_observation := (user_observation pu)\<lparr>analog_beams := abs'\<rparr>\<rparr>)))"

definition add_numerical_beam ::
  "services \<Rightarrow> registry \<Rightarrow> int \<Rightarrow> kwargs \<Rightarrow> parset_user \<Rightarrow> error + parset_user" where
  "add_numerical_beam svc reg anabeam_index kw pu =
     (case py_position (analog_beams (user_observation pu)) anabeam_index of
        Inl e \<Rightarrow> Inl e
      | Inr j \<Rightarrow>
          (case NumericalBeamParsetBlock svc reg kw of
             Inl e \<Rightarrow> Inl e
           | Inr numbeam \<Rightarrow>
               (let anabeam = analog_beams (user_observation pu) ! j;
                    anabeam' = propagate_index svc
                      (anabeam\<lparr>numerical_beams := numerical_beams anabeam @ [numbeam]\<rparr>)
                in Inr (updates_numbeams_indices
                          (pu\<lparr>user_observation :=
                                (user_observation pu)\<lparr>analog_beams :=
                                   (analog_beams (user_observation pu))[j := anabeam']\<rparr>\<rparr>)))))"

text \<open>
  The iterations of \<open>remove_numerical_beam\<close>. The inner one walks the numerical beams
  of one analog beam with the running counter, and either deletes the beam the
  counter meets (\<open>Inl\<close>, the \<open>break\<close>) or ends with the counter advanced (\<open>Inr\<close>).
\<close>

fun delete_in_numbeams :: "int \<Rightarrow> int \<Rightarrow> beam_block list \<Rightarrow> beam_block list + int" where
  "delete_in_numbeams counter numbeam_index [] = Inr counter"
| "delete_in_numbeams counter numbeam_index (numbeam # rest) =
     (if counter = numbeam_index then Inl rest
      else (case delete_in_numbeams (counter + 1) numbeam_index rest of
              Inl rest' \<Rightarrow> Inl (numbeam # rest')
            | Inr counter' \<Rightarrow> Inr counter'))"

fun delete_in_anabeams :: "int \<Rightarrow> int \<Rightarrow> analog_beam list \<Rightarrow> analog_beam list" where
  "delete_in_anabeams counter numbeam_index [] = []"
| "delete_in_anabeams counter numbeam_index (anabeam # rest) =
     (case delete_in_numbeams counter numbeam_index (numerical_beams anabeam) of
        Inl numbeams' \<Rightarrow> anabeam\<lparr>numerical_beams := numbeams'\<rparr> # rest
      | Inr counter' \<Rightarrow> anabeam # delete_in_anabeams counter' numbeam_index rest)"

definition remove_numerical_beam :: "int \<Rightarrow> parset_user \<Rightarrow> parset_user" where
  "remove_numerical_beam numbeam_index pu =
     updates_numbeams_indices
       (pu\<lparr>user_observation :=
             (user_observation pu)\<lparr>analog_beams :=
                delete_in_anabeams 0 numbeam_index (analog_beams (user_observation pu))\<rparr>\<rparr>)"

text \<open>A hierarchy is built by calls of the four public operations on a new \<open>ParsetUser\<close>.\<close>

datatype api_call =
    AddAnalogBeam kwargs
  | RemoveAnalogBeam int
  | AddNumericalBeam int kwargs
  | RemoveNumericalBeam int

fun api_step :: "services \<Rightarrow> registry \<Rightarrow> api_call \<Rightarrow> parset_user \<Rightarrow> error + parset_user" where
  "api_step svc reg (AddAnalogBeam kw) pu = add_analog_beam svc reg kw pu"
| "api_step svc reg (RemoveAnalogBeam i) pu = remove_analog_beam svc i pu"
| "api_step svc reg (AddNumericalBeam i kw) pu = add_numerical_beam svc reg i kw pu"
| "api_step svc reg (RemoveNumericalBeam k) pu = Inr (remove_numerical_beam k pu)"

fun api_run :: "services \<Rightarrow> registry \<Rightarrow> api_call list \<Rightarrow> parset_user \<Rightarrow> error + parset_user" where
  "api_run svc reg [] pu = Inr pu"
| "api_run svc reg (c # cs) pu =
     (case api_step svc reg c pu of
        Inl e \<Rightarrow> Inl e
      | Inr pu' \<Rightarrow> api_run svc reg cs pu')"

definition build :: "services \<Rightarrow> registry \<Rightarrow> api_call list \<Rightarrow> error + parset_user" where
  "build svc reg calls =
     (case ParsetUser svc reg of
        Inl e \<Rightarrow> Inl e
      | Inr pu \<Rightarrow> api_run svc reg calls pu)"

definition all_numbeams :: "parset_user \<Rightarrow> beam_block list" where
  "all_numbeams pu = concat (map numerical_beams (analog_beams (user_observation pu)))"


subsection \<open>Entries as shared objects\<close>

text \<open>
  In the source the entries of a configuration are dictionaries, shared by
  reference unless they are copied. To state what \<open>deepcopy\<close> buys, this
  section keeps the entries in an object store, a configuration being a list of
  field names with the addresses of their entries. The registry's own entries
  live in the same store.
\<close>

type_synonym addr = nat

record object_store =
  cells :: "addr \<rightharpoonup> entry"
  next_free :: addr

type_synonym ref_configuration = "(string \<times> addr) list"

type_synonym ref_registry = "(string \<times> ref_configuration) list"

record ref_block =
  r_field :: string
  r_configuration :: ref_configuration

text \<open>\<open>deepcopy\<close> allocates a new entry for every field and copies the old one into it.\<close>

fun deepcopy :: "ref_configuration \<Rightarrow> object_store \<Rightarrow> ref_configuration \<times> object_store" where
  "deepcopy [] h = ([], h)"
| "deepcopy ((k, a) # rest) h =
     (case deepcopy rest
             (h\<lparr>cells := (cells h)(next_free h := cells h a),
                next_free := Suc (next_free h)\<rparr>) of
        (rest', h') \<Rightarrow> ((k, next_free h) # rest', h'))"

text \<open>
  The assignment \<open>self.configuration[key]["value"] = value\<close> and the one of the
  \<open>modified\<close> flag write into the entry object the block refers to.
\<close>

definition store_set_entry ::
  "services \<Rightarrow> ref_configuration \<Rightarrow> string \<Rightarrow> wvalue \<Rightarrow> object_store \<Rightarrow> object_store" where
  "store_set_entry svc conf key v h =
     (case map_of conf key of
        None \<Rightarrow> h
      | Some a \<Rightarrow>
          (case cells h a of
             None \<Rightarrow> h
           | Some e \<Rightarrow>
               h\<lparr>cells := (cells h)(a \<mapsto> e\<lparr>e_value := writer_value svc v,
                                                e_modified := True\<rparr>)\<rparr>))"

definition store_modify_properties ::
  "services \<Rightarrow> kwargs \<Rightarrow> ref_block \<Rightarrow> object_store \<Rightarrow> object_store" where
  "store_modify_properties svc kw b h =
     fold (\<lambda>(key, v) h'. store_set_entry svc (r_configuration b) key v h') kw h"

text \<open>What a configuration reads as: every field with the entry at its address.\<close>

definition read_configuration ::
  "object_store \<Rightarrow> ref_configuration \<Rightarrow> (string \<times> entry option) list" where
  "read_configuration h conf = map (\<lambda>(k, a). (k, cells h a)) conf"

text \<open>
  The writer's blocks, in the order of their creation. A block is created from
  the registry with the keyword arguments of its constructor (\<open>__init__\<close>
  followed by \<open>_modify_properties\<close>), and a field of a block is set by
  \<open>__setitem__\<close>.
\<close>

datatype block_call = NewBlock string kwargs | SetItem nat string wvalue

record writer_store =
  objects :: object_store
  blocks :: "ref_block list"

fun block_step ::
  "services \<Rightarrow> ref_registry \<Rightarrow> block_call \<Rightarrow> writer_store \<Rightarrow> error + writer_store" where
  "block_step svc reg (NewBlock fld kw) st =
     (case map_of reg fld of
        None \<Rightarrow> Inl KeyError
      | Some conf \<Rightarrow>
          (case deepcopy conf (objects st) of
             (conf', h) \<Rightarrow>
               Inr \<lparr>objects =
                      store_modify_properties svc kw
                        \<lparr>r_field = fld, r_configuration = conf'\<rparr> h,
                    blocks = blocks st @ [\<lparr>r_field = fld, r_configuration = conf'\<rparr>]\<rparr>))"
| "block_step svc reg (SetItem i key v) st =
     (if i < length (blocks st)
      then Inr (st\<lparr>objects :=
                    store_modify_properties svc [(key, v)] (blocks st ! i) (objects st)\<rparr>)
      else Inl IndexError)"

fun block_run ::
  "services \<Rightarrow> ref_registry \<Rightarrow> block_call list \<Rightarrow> writer_store \<Rightarrow> error + writer_store" where
  "block_run svc reg [] st = Inr st"
| "block_run svc reg (c # cs) st =
     (case block_step svc reg c st of
        Inl e \<Rightarrow> Inl e
      | Inr st' \<Rightarrow> block_run svc reg cs st')"



definition block_addrs :: "ref_block \<Rightarrow> addr list" where
  "block_addrs b = map snd (r_configuration b)"


subsection \<open>Consistency of a hierarchy\<close>

text \<open>
  What the renumbering passes maintain: the analog beams are numbered from 0 in
  their order, so are the numerical beams across the whole hierarchy, and the
  \<open>noBeam\<close> field of every numerical beam holds the index of the analog beam that
  owns it. The registry has to declare \<open>noBeam\<close> among the fields of \<open>Beam\<close>,
  otherwise \<open>_propagate_index\<close> only logs a warning.
\<close>

fun numbered :: "int \<Rightarrow> 'a beam_block_scheme list \<Rightarrow> bool" where
  "numbered c [] = True"
| "numbered c (b # bs) = (index b = c \<and> numbered (c + 1) bs)"

definition has_noBeam :: "'a block_scheme \<Rightarrow> bool" where
  "has_noBeam b = (''noBeam'' \<in> fst ` set (configuration b))"

definition refers_to :: "int \<Rightarrow> 'a block_scheme \<Rightarrow> bool" where
  "refers_to i b = (block_getitem b ''noBeam'' = Inr (WInt i))"

definition anabeam_ok :: "analog_beam \<Rightarrow> bool" where
  "anabeam_ok a = list_all (refers_to (index a)) (numerical_beams a)"

definition registry_has_noBeam :: "registry \<Rightarrow> bool" where
  "registry_has_noBeam reg =
     (case map_of reg ''Beam'' of None \<Rightarrow> True | Some conf \<Rightarrow> ''noBeam'' \<in> fst ` set conf)"

definition hierarchy_ok :: "analog_beam list \<Rightarrow> bool" where
  "hierarchy_ok anas =
     (numbered 0 anas \<and> list_all anabeam_ok anas
      \<and> numbered 0 (concat (map numerical_beams anas)))"

text \<open>
  The position, before the numerical beam at position \<open>k\<close> is removed, of the beam
  that is at position \<open>j\<close> afterwards.
\<close>

definition origin :: "int \<Rightarrow> nat \<Rightarrow> nat" where
  "origin k j = (if int j < k then j else Suc j)"

section \<open>Example inputs\<close>

text \<open>
  An instance of the external collaborators and a few entities, used to
  evaluate the definitions at concrete inputs. No string parses as a time or as
  a number, a duration is an integer number of seconds, the coordinate
  transformations are the identity, and numpy is a release that raises on the
  truth value of an empty array.
\<close>

definition stub_services :: services where
  "stub_services =
     \<lparr>parse_time = (\<lambda>s. None),
      parse_float = (\<lambda>s. None),
      isot = (\<lambda>t. ''2020-01-01T00:00:00''),
      time_delta = (\<lambda>v. case v of VInt n \<Rightarrow> Inr (of_int n) | _ \<Rightarrow> Inl ValueError),
      time_plus = (\<lambda>v d. case v of VTime t \<Rightarrow> Inr (t + d) | _ \<Rightarrow> Inl TypeError),
      altaz_of_radec = (\<lambda>t p. Inr (Scalar (fst p), Scalar (snd p))),
      radec_of_altaz = (\<lambda>t p. Inr p),
      solar_system = (\<lambda>name t. Inl ValueError),
      empty_array_raises = True,
      sb2freq = (\<lambda>sb. Inr (of_int sb * (SB_WIDTH / 1000))),
      where_other = (\<lambda>idx v. Inr [])\<rparr>"

definition example_center :: center where
  "example_center =
     \<lparr>ra = Some (Scalar (Fin 10)), dec = Some (Scalar (Fin 20)), obs_direction_type = ''j2000''\<rparr>"

definition example_time :: time_dict where
  "example_time =
     \<lparr>t_gte = ''2020-01-01T00:00:00'', t_lte = ''2020-01-01T00:10:00'', t_duration = 600\<rparr>"

definition nickel_pointing :: pointing where
  "nickel_pointing =
     \<lparr>pt_idx = 0, pt_name = VStr ''CasA'', pt_center = example_center,
      pt_time = example_time, pt_receiver = [''name'' \<mapsto> RStr ''nickel'']\<rparr>"

definition example_fov :: "elem list \<Rightarrow> pointing list \<Rightarrow> fov" where
  "example_fov mas ps =
     \<lparr>fov_idx = 0, fov_pointings = ps, fov_name = VStr ''CasA'',
      fov_center = example_center, fov_time = example_time,
      mini_arrays = mas, antennas = []\<rparr>"

definition example_entry :: "fov list \<Rightarrow> json_entry" where
  "example_entry fs = \<lparr>je_output = Map.empty, fovs = fs, pointings = []\<rparr>"

definition example_beam :: store where
  "example_beam =
     [''target'' \<mapsto> VStr ''B0329+54'',
      ''duration'' \<mapsto> VInt 600,
      ''startTime'' \<mapsto> VTime 0,
      ''directionType'' \<mapsto> VStr ''J2000'',
      ''angle1'' \<mapsto> VAngle (Fin 350),
      ''angle2'' \<mapsto> VAngle (Fin 54),
      ''toDo'' \<mapsto> VStr ''pulsar'',
      ''parameters'' \<mapsto> VStr ''FOLD: --src=B0329+54 --onlyi'',
      ''subbandList'' \<mapsto> VList [EInt 100, EInt 101, EInt 102, EInt 200, EInt 201],
      ''noBeam'' \<mapsto> VInt 0]"

definition schema_entry :: "wvalue \<Rightarrow> bool \<Rightarrow> entry" where
  "schema_entry v req =
     \<lparr>e_value = v, e_unit = [], e_required = req, e_syntax = None, e_modified = False\<rparr>"

definition example_registry :: registry where
  "example_registry =
     [(''Observation'', [(''title'', schema_entry (WStr []) True)]),
      (''Output'', [(''hd_receivers'', schema_entry (WStr ''[]'') False)]),
      (''Anabeam'', [(''target'', schema_entry (WStr []) True)]),
      (''Beam'', [(''target'', schema_entry (WStr []) True),
                  (''noBeam'', schema_entry (WInt 0) True)])]"

definition example_ref_registry :: ref_registry where
  "example_ref_registry =
     [(''Observation'', [(''title'', 0)]),
      (''Beam'', [(''target'', 1), (''noBeam'', 2)])]"

definition example_objects :: object_store where
  "example_objects =
     \<lparr>cells = [0 \<mapsto> schema_entry (WStr []) True,
               1 \<mapsto> schema_entry (WStr []) True,
               2 \<mapsto> schema_entry (WInt 0) True],
      next_free = 3\<rparr>"


definition has_section_prefix :: "string \<Rightarrow> bool" where
  "has_section_prefix line =
     (startswith line ''Observation'' \<or> startswith line ''Output''
      \<or> startswith line ''AnaBeam'' \<or> startswith line ''Beam''
      \<or> startswith line ''PhaseCenter'')"

text \<open>A line of a file, with its newline.\<close>

definition nl :: "string \<Rightarrow> string" where
  "nl s = s @ [CHR 0x0A]"

text \<open>The decoder after the single line \<open>Observation.title=a\<close>.\<close>

definition after_title :: decoder where
  "after_title =
     \<lparr>observation = [''title'' \<mapsto> VStr ''a''], p_output = Map.empty, anabeams = Map.empty,
      digibeams = Map.empty, phase_centers = Map.empty, parset_user = [],
      dicoName = Some ''Observation'', content = Some (nl ''title=a'')\<rparr>"

definition natif_entity :: store where
  "natif_entity =
     [''duration'' \<mapsto> VInt 600,
      ''startTime'' \<mapsto> VTime 0,
      ''directionType'' \<mapsto> VStr ''Natif'',
      ''angle1'' \<mapsto> VAngle (Fin 10),
      ''angle2'' \<mapsto> VAngle (Fin 20),
      ''decal_ra'' \<mapsto> VInt 5]"

text \<open>The same collaborators with a float parser that knows the spelling \<open>nan\<close>.\<close>

definition nan_services :: services where
  "nan_services =
     stub_services\<lparr>parse_float := (\<lambda>s. if s = ''nan'' then Some NaN else None)\<rparr>"

text \<open>A transit beam whose two angles were written as the same bracketed list.\<close>

definition transit_beam :: "elem list \<Rightarrow> store" where
  "transit_beam es =
     [''duration'' \<mapsto> VInt 600,
      ''startTime'' \<mapsto> VTime 0,
      ''directionType'' \<mapsto> VStr ''azelgeo'',
      ''angle1'' \<mapsto> VList es,
      ''angle2'' \<mapsto> VList es]"

text \<open>A beam whose \<open>noBeam\<close> is the index of no field-of-view of the examples.\<close>

definition dangling_beam :: store where
  "dangling_beam =
     natif_entity(''target'' \<mapsto> VStr ''Zenith'',
                  ''subbandList'' \<mapsto> VList [EInt 100],
                  ''noBeam'' \<mapsto> VInt 3)"

text \<open>
  A hierarchy of two analog beams with three numerical beams, and the calls that
  build it.
\<close>

definition example_calls :: "api_call list" where
  "example_calls =
     [AddAnalogBeam [(''target'', WStr ''CasA'')],
      AddAnalogBeam [(''target'', WStr ''CygA'')],
      AddNumericalBeam 0 [(''target'', WStr ''a'')],
      AddNumericalBeam 1 [(''target'', WStr ''b'')],
      AddNumericalBeam 0 [(''target'', WStr ''c'')] ]"

definition modified_entry :: "wvalue \<Rightarrow> entry" where
  "modified_entry v =
     \<lparr>e_value = v, e_unit = [], e_required = True, e_syntax = None, e_modified = True\<rparr>"

definition example_numbeam :: "string \<Rightarrow> int \<Rightarrow> int \<Rightarrow> beam_block" where
  "example_numbeam target i no_beam =
     \<lparr>field = ''Beam'',
      configuration = [(''target'', modified_entry (WStr target)),
                       (''noBeam'', modified_entry (WInt no_beam))],
      index = i\<rparr>"

definition example_anabeam :: "string \<Rightarrow> int \<Rightarrow> beam_block list \<Rightarrow> analog_beam" where
  "example_anabeam target i numbeams =
     \<lparr>field = ''Anabeam'',
      configuration = [(''target'', modified_entry (WStr target))],
      index = i,
      numerical_beams = numbeams\<rparr>"

definition example_hierarchy :: parset_user where
  "example_hierarchy =
     \<lparr>user_observation =
        \<lparr>field = ''Observation'',
         configuration = [(''title'', schema_entry (WStr []) True)],
         analog_beams =
           [example_anabeam ''CasA'' 0 [example_numbeam ''a'' 0 0, example_numbeam ''c'' 1 0],
            example_anabeam ''CygA'' 1 [example_numbeam ''b'' 2 1] ]\<rparr>,
      user_output =
        \<lparr>field = ''Output'',
         configuration = [(''hd_receivers'', schema_entry (WStr ''[]'') False)]\<rparr>\<rparr>"

text \<open>
  Three blocks made from the example registry of the object store, the store
  after their creation, and the store after \<open>noBeam\<close> is set on the first block.
\<close>

definition example_block_calls :: "block_call list" where
  "example_block_calls =
     [NewBlock ''Beam'' [(''target'', WStr ''a'')],
      NewBlock ''Beam'' [(''target'', WStr ''b'')],
      NewBlock ''Observation'' [] ]"

definition example_store :: writer_store where
  "example_store =
     (case block_run stub_services example_ref_registry example_block_calls
             \<lparr>objects = example_objects, blocks = []\<rparr> of
        Inr st \<Rightarrow> st
      | Inl e \<Rightarrow> \<lparr>objects = example_objects, blocks = []\<rparr>)"

definition example_store_after :: writer_store where
  "example_store_after =
     example_store\<lparr>objects :=
       store_modify_properties stub_services [(''noBeam'', WInt 7)]
         (blocks example_store ! 0) (objects example_store)\<rparr>"

section \<open>Properties of the range compressor\<close>

lemma np_split_empty: "np_split ([]::int list) (split_points []) = [ [] ]"
  by (simp add: np_split_def split_points_def np_diff_def)

lemma np_split_example:
  "np_split [100, 101, 102, 200, 201 :: int] (split_points [100, 101, 102, 200, 201])
     = [ [100, 101, 102], [200, 201] ]"
  by (simp add: np_split_def split_points_def np_diff_def upt_rec)

lemma example_beam_frequency:
  "get_frequency_dict stub_services example_beam ''subbandList'' =
     Inr [\<lparr>fq_gte = 19.53125, fq_lt = 20.1171875, fq_unit = ''MHz''\<rparr>,
          \<lparr>fq_gte = 39.0625, fq_lt = 39.453125, fq_unit = ''MHz''\<rparr>]"
  by (simp add: get_frequency_dict_def example_beam_def getitem_def int_array_def
        np_split_example freq_group_def stub_services_def SB_WIDTH_def)

text \<open>
  Claim C5, as the source has it. For an empty integer sequence the frequency
  variant of the range compressor does not return an empty list: \<open>np.split\<close>
  yields one group, the empty one, and taking its minimum raises \<open>ValueError\<close>,
  whatever the frequency table is.
\<close>

theorem C5_empty_sequence_raises:
  assumes "property fld = Some (VList [])"
  shows "get_frequency_dict svc property fld = Inl ValueError"
  using assms
  by (simp add: get_frequency_dict_def getitem_def int_array_def np_split_empty freq_group_def)

theorem C5_empty_sequence_raises_witness:
  "[''xst_sbList'' \<mapsto> VList [] ] ''xst_sbList'' = Some (VList [])
   \<and> get_frequency_dict stub_services [''xst_sbList'' \<mapsto> VList [] ] ''xst_sbList''
       = Inl ValueError"
  using C5_empty_sequence_raises
          [of "[''xst_sbList'' \<mapsto> VList [] ]" "''xst_sbList''" stub_services]
  by simp

text \<open>The claim as the spec states it fails: the result is not the empty list.\<close>

theorem C5_empty_sequence_counterexample:
  "get_frequency_dict stub_services [''subbandList'' \<mapsto> VList [] ] ''subbandList'' \<noteq> Inr []"
  by (simp add: get_frequency_dict_def getitem_def int_array_def np_split_empty freq_group_def)

section \<open>Properties of the receiver settings\<close>

lemma lower_fold: "lower ''FOLD: --src=B0329+54 --onlyi'' = ''fold: --src=b0329+54 --onlyi''"
  by (simp add: lower_def lower_char_def)

lemma split_fold_dashes:
  "split ''fold: --src=b0329+54 --onlyi'' ''--'' = [''fold: '', ''src=b0329+54 '', ''onlyi'']"
  by (simp add: split_def startswith_def)

lemma split_fold_colon:
  "split ''fold: --src=b0329+54 --onlyi'' '':'' = [''fold'', '' --src=b0329+54 --onlyi'']"
  by (simp add: split_def startswith_def)

lemma split_src: "split ''src=b0329+54 '' ''='' = [''src'', ''b0329+54 '']"
  by (simp add: split_def startswith_def)

lemma parse_parameters_fold:
  "parse_parameters ''FOLD: --src=B0329+54 --onlyi'' True =
     (''fold'',
      [''src'' \<mapsto> RStr ''b0329+54 '', ''fold:'' \<mapsto> RBool True, ''onlyi'' \<mapsto> RBool True])"
  by (simp add: parse_parameters_def lower_fold split_fold_dashes split_fold_colon
        config_pairs_def config_flags_def split_src rstrip_def is_space_def)

text \<open>
  Claim C3, evaluated on the source. For a beam whose \<open>parameters\<close> field is
  \<open>FOLD: --src=B0329+54 --onlyi\<close> and whose subband list compresses to \<open>freqs\<close>,
  the pulsar dispatcher returns the \<open>pulsar_fold\<close> document with \<open>n_polars\<close> equal
  to 1, but its \<open>source_name\<close> is \<open>b0329+54\<close> followed by a space: the pieces
  between \<open>--\<close> keep their trailing blank, which is stripped from the flags only.
\<close>

theorem C3_pulsar_fold_document:
  assumes "digibeam ''parameters'' = Some (VStr ''FOLD: --src=B0329+54 --onlyi'')"
    and "get_frequency_dict svc digibeam ''subbandList'' = Inr freqs"
  shows "pulsar_setting svc digibeam outp version =
           Inr [''name'' \<mapsto> RStr ''undysputed'',
                ''mode'' \<mapsto> RStr ''pulsar_fold'',
                ''source_name'' \<mapsto> RStr ''b0329+54 '',
                ''n_polars'' \<mapsto> RInt 1,
                ''frequency'' \<mapsto> RFreq freqs]"
  using assms
  by (simp add: pulsar_setting_def beam_parameters_def getitem_def except_KeyError_def
        parse_parameters_fold pulsar_document_def cfg_get_def n_polars_def truthy_def)

theorem C3_pulsar_fold_document_witness:
  "example_beam ''parameters'' = Some (VStr ''FOLD: --src=B0329+54 --onlyi'')
   \<and> get_frequency_dict stub_services example_beam ''subbandList'' =
       Inr [\<lparr>fq_gte = 19.53125, fq_lt = 20.1171875, fq_unit = ''MHz''\<rparr>,
            \<lparr>fq_gte = 39.0625, fq_lt = 39.453125, fq_unit = ''MHz''\<rparr>]
   \<and> pulsar_setting stub_services example_beam Map.empty [1, 0] =
       Inr [''name'' \<mapsto> RStr ''undysputed'',
            ''mode'' \<mapsto> RStr ''pulsar_fold'',
            ''source_name'' \<mapsto> RStr ''b0329+54 '',
            ''n_polars'' \<mapsto> RInt 1,
            ''frequency'' \<mapsto>
              RFreq [\<lparr>fq_gte = 19.53125, fq_lt = 20.1171875, fq_unit = ''MHz''\<rparr>,
                     \<lparr>fq_gte = 39.0625, fq_lt = 39.453125, fq_unit = ''MHz''\<rparr>] ]"
proof -
  have p: "example_beam ''parameters'' = Some (VStr ''FOLD: --src=B0329+54 --onlyi'')"
    by (simp add: example_beam_def)
  show ?thesis
    using p example_beam_frequency
      C3_pulsar_fold_document [OF p example_beam_frequency, of Map.empty "[1, 0]"]
    by simp
qed

section \<open>Properties of the mini-array pruning pass\<close>

lemma scan_receivers_named:
  "list_all (\<lambda>p. pt_receiver p ''name'' \<noteq> None) ps \<Longrightarrow> scan_receivers ps = Inr ()"
  by (induction ps) (auto simp: cfg_get_def)

lemma prune_fov_no_remote:
  assumes "elem_ints (mini_arrays f) = Some ns" and "list_all (\<lambda>n. n \<le> 96) ns"
  shows "prune_fov f = Inr f"
proof -
  have "\<not> list_ex (\<lambda>n. n > 96) ns"
    using assms(2) by (induction ns) auto
  then show ?thesis
    using assms(1) by (simp add: prune_fov_def)
qed

lemma prune_fov_remote:
  assumes "elem_ints (mini_arrays f) = Some ns" and "list_ex (\<lambda>n. n > 96) ns"
    and "list_all (\<lambda>p. pt_receiver p ''name'' \<noteq> None) (fov_pointings f)"
  shows "prune_fov f = Inr (f\<lparr>mini_arrays := filter (\<lambda>ma. \<not> is_remote ma) (mini_arrays f)\<rparr>)"
  using assms by (simp add: prune_fov_def scan_receivers_named)

text \<open>
  Claim C1, evaluated on the source at a field-of-view with mini-arrays 1 and 97
  and an attached pointing whose receiver is named \<open>nickel\<close>: the pass removes
  index 97, where the claim leaves the list untouched. The two lemmas above are
  the parts of the claim that hold (nothing above 96: unchanged; something above
  96: those indices removed), the second one whatever the receivers are.
\<close>

theorem C1_nickel_fov_is_pruned:
  "remove_unused_miniarrays (example_entry [example_fov [EInt 1, EInt 97] [nickel_pointing] ])
     = Inr (example_entry [example_fov [EInt 1] [nickel_pointing] ])"
  by (simp add: remove_unused_miniarrays_def example_entry_def example_fov_def prune_fov_def
        nickel_pointing_def cfg_get_def is_remote_def)


section \<open>Properties of the pointing center resolver\<close>

lemma coerce_azelfile:
  "coerce svc ''directionType'' ''azelgeo_azelfile'' = Inr (VStr ''azelgeo_azelfile'')"
  by (simp add: coerce_def replace_char_def startswith_def endswith_def lower_def lower_char_def
        isdigit_def is_digit_def)

lemma setitem_azelfile:
  "setitem svc m ''directionType'' ''azelgeo_azelfile'' =
     Inr (m(''directionType'' \<mapsto> VStr ''azelgeo_azelfile''))"
  by (simp add: setitem_def coerce_azelfile)

lemma lower_azelfile: "lower ''azelgeo_azelfile'' = ''azelgeo_azelfile''"
  by (simp add: lower_def lower_char_def)

lemma lower_Natif: "lower ''Natif'' = ''natif''"
  by (simp add: lower_def lower_char_def)

lemma lower_J2000: "lower ''J2000'' = ''j2000''"
  by (simp add: lower_def lower_char_def)

lemma lower_azelgeo: "lower ''azelgeo'' = ''azelgeo''"
  by (simp add: lower_def lower_char_def)

subsection \<open>The clamp\<close>

lemma fless_nan_left: "\<not> fless NaN y"
  by simp

lemma fless_nan_right: "\<not> fless x NaN"
  by (cases x) simp_all

lemma holds_scalar: "holds svc (Scalar x) test = Inr (test x)"
  by (simp add: holds_def)

lemma holds_single: "holds svc (Array [x]) test = Inr (test x)"
  by (simp add: holds_def array_bool_def)

lemma holds_array_cases:
  assumes "holds svc (Array xs) test = Inr b"
  shows "(xs = [] \<and> \<not> b) \<or> (\<exists>x. xs = [x] \<and> b = test x)"
  using assms
  by (auto simp: holds_def array_bool_def split: list.splits if_splits)

lemma not_less_in_range:
  assumes "\<not> fless x (Fin lo)" and "\<not> fless (Fin hi) x"
  shows "x = NaN \<or> in_range lo hi x"
  using assms by (cases x) (auto simp: in_range_def)

text \<open>
  Whatever the clamp returns is, element by element, within the bounds or
  not-a-number: a scalar, a one-element array, the empty array where numpy
  lets it through.
\<close>

lemma constrain_angle_range:
  assumes "constrain_angle svc angle (Fin lo) (Fin hi) = Inr v" and "lo \<le> hi"
  shows "nan_or_within lo hi v"
proof (cases angle)
  case (Scalar x)
  then show ?thesis
    using assms not_less_in_range [of x lo hi]
    by (auto simp: constrain_angle_def holds_scalar nan_or_within_def elements_def in_range_def
          split: if_splits)
next
  case (Array xs)
  show ?thesis
  proof (cases "holds svc (Array xs) (\<lambda>x. fless x (Fin lo))")
    case (Inl e)
    then show ?thesis using assms Array by (simp add: constrain_angle_def)
  next
    case low: (Inr too_low)
    show ?thesis
    proof (cases too_low)
      case True
      then show ?thesis
        using assms Array low
        by (auto simp: constrain_angle_def nan_or_within_def elements_def in_range_def)
    next
      case False
      show ?thesis
      proof (cases "holds svc (Array xs) (\<lambda>x. fless (Fin hi) x)")
        case (Inl e)
        then show ?thesis using assms Array low False by (simp add: constrain_angle_def)
      next
        case high: (Inr too_high)
        show ?thesis
        proof (cases too_high)
          case True
          then show ?thesis
            using assms Array low False high
            by (auto simp: constrain_angle_def nan_or_within_def elements_def in_range_def)
        next
          case nothigh: False
          have v: "v = Array xs"
            using assms Array low False high nothigh by (simp add: constrain_angle_def)
          from holds_array_cases [OF low] holds_array_cases [OF high] False nothigh
          consider "xs = []" | x where "xs = [x]" "\<not> fless x (Fin lo)" "\<not> fless (Fin hi) x"
            by auto
          then show ?thesis
          proof cases
            case 1
            then show ?thesis by (simp add: v nan_or_within_def elements_def)
          next
            case 2
            then show ?thesis
              using not_less_in_range [of x lo hi]
              by (simp add: v nan_or_within_def elements_def)
          qed
        qed
      qed
    qed
  qed
qed

text \<open>
  Not-a-number passes the clamp, both comparisons being false for it; every other
  scalar, the infinities included, comes back as a number between the bounds.
\<close>

lemma constrain_angle_nan: "constrain_angle svc (Scalar NaN) lo hi = Inr (Scalar NaN)"
  by (simp add: constrain_angle_def holds_scalar fless_nan_right)

lemma constrain_angle_number:
  assumes "x \<noteq> NaN" and "lo \<le> hi"
  shows "\<exists>y. constrain_angle svc (Scalar x) (Fin lo) (Fin hi) = Inr (Scalar y) \<and> in_range lo hi y"
  using assms by (cases x) (auto simp: constrain_angle_def holds_scalar in_range_def)

subsection \<open>The branches\<close>

lemma offset_radec_range:
  assumes "offset_radec svc property radec = Inr (a, b)"
  shows "\<exists>r d. a = Some r \<and> b = Some d \<and> nan_or_within 0 360 r \<and> nan_or_within (- 90) 90 d"
  using assms constrain_angle_range [of svc _ 0 360] constrain_angle_range [of svc _ "- 90" 90]
  by (auto simp: offset_radec_def split: sum.splits)

lemma resolve_j2000_range:
  assumes "resolve_j2000 svc property st d = Inr (a, b)"
  shows "\<exists>r dc. a = Some r \<and> b = Some dc \<and> nan_or_within 0 360 r \<and> nan_or_within (- 90) 90 dc"
  using assms
  by (auto simp: resolve_j2000_def split: sum.splits if_splits dest: offset_radec_range)

lemma resolve_azelgeo_range:
  assumes "resolve_azelgeo svc property st d = Inr (a, b)"
  shows "\<exists>r dc. a = Some r \<and> b = Some dc \<and> nan_or_within 0 360 r \<and> nan_or_within (- 90) 90 dc"
  using assms constrain_angle_range [of svc _ 0 360] constrain_angle_range [of svc _ "- 90" 90]
  by (auto simp: resolve_azelgeo_def split: sum.splits)

lemma resolve_solar_system_range:
  assumes "resolve_solar_system svc property n st d = Inr (a, b)"
  shows "\<exists>r dc. a = Some r \<and> b = Some dc \<and> nan_or_within 0 360 r \<and> nan_or_within (- 90) 90 dc"
  using assms
  by (auto simp: resolve_solar_system_def split: sum.splits if_splits dest: offset_radec_range)

lemma resolve_azelfile_service:
  assumes "resolve_azelfile svc st d = Inr (Some r, Some dc)"
  shows "\<exists>mid. radec_of_altaz svc mid (Scalar (Fin 0), Scalar (Fin 90)) = Inr (r, dc)"
  using assms
  by (auto simp: resolve_azelfile_def split: sum.splits)

text \<open>Whenever the resolver returns for an entity with an \<open>azelFile\<close> field, it reports the sentinel.\<close>

lemma azelfile_always_reported:
  assumes "get_pointing_center_dict svc property = Inr (c, p)" and "property ''azelFile'' \<noteq> None"
  shows "obs_direction_type c = ''azelgeo_azelfile''
         \<and> p = property(''directionType'' \<mapsto> VStr ''azelgeo_azelfile'')"
  using assms
  by (auto simp: get_pointing_center_dict_def Let_def setitem_azelfile getitem_def lower_azelfile
        split: sum.splits if_splits prod.splits)

text \<open>
  Claim C4, as the source has it. When the resolver returns non-null coordinates,
  every value of the right ascension that is a number lies in the closed
  interval from 0 to 360 degrees, 360 included, and every value of the
  declination that is a number lies between -90 and 90 degrees, in every branch
  and whatever the decal offsets are. A value is left out only when it is
  not-a-number. The \<open>azelgeo_azelfile\<close> branch returns the answer of the
  coordinate service without a clamp, so the one hypothesis on a collaborator is
  that this service places the zenith within the two ranges.
\<close>

theorem C4_center_within_closed_ranges:
  assumes "get_pointing_center_dict svc property = Inr (c, p)"
    and "ra c = Some r" and "dec c = Some d"
    and zenith: "\<And>mid zr zd.
          radec_of_altaz svc mid (Scalar (Fin 0), Scalar (Fin 90)) = Inr (zr, zd)
          \<Longrightarrow> nan_or_within 0 360 zr \<and> nan_or_within (- 90) 90 zd"
  shows "nan_or_within 0 360 r \<and> nan_or_within (- 90) 90 d"
proof -
  obtain duration start_time property' dt where
    "getitem property' ''directionType'' = Inr (VStr dt)"
    and res: "(if lower dt = ''j2000'' then resolve_j2000 svc property' start_time duration
           else if lower dt = ''azelgeo'' then resolve_azelgeo svc property' start_time duration
           else if lower dt = ''azelgeo_azelfile'' then resolve_azelfile svc start_time duration
           else if lower dt = ''natif'' then Inr (None, None)
           else resolve_solar_system svc property' (lower dt) start_time duration)
          = Inr (Some r, Some d)"
    using assms(1-3)
    by (auto simp: get_pointing_center_dict_def Let_def
          split: sum.splits pvalue.splits if_splits prod.splits)
  show ?thesis
  proof (cases "lower dt = ''azelgeo_azelfile''")
    case True
    then have "resolve_azelfile svc start_time duration = Inr (Some r, Some d)"
      using res by (simp split: if_splits)
    from resolve_azelfile_service [OF this] zenith show ?thesis by blast
  next
    case False
    then show ?thesis
      using res
      by (auto split: if_splits
            dest: resolve_j2000_range resolve_azelgeo_range resolve_solar_system_range)
  qed
qed

lemma example_beam_offsets:
  "get_pointing_center_dict stub_services
     (example_beam(''decal_ra'' \<mapsto> VInt 20, ''decal_dec'' \<mapsto> VInt 50)) =
   Inr (\<lparr>ra = Some (Scalar (Fin 360)), dec = Some (Scalar (Fin 90)),
         obs_direction_type = ''j2000''\<rparr>,
        example_beam(''decal_ra'' \<mapsto> VInt 20, ''decal_dec'' \<mapsto> VInt 50))"
  by (simp add: get_pointing_center_dict_def example_beam_def getitem_def stub_services_def
        lower_J2000 Let_def resolve_j2000_def to_deg_def has_decal_altaz_def offset_radec_def
        get_float_def py_float_def float_int_def constrain_angle_def holds_scalar coord_add_def)

lemma stub_zenith:
  assumes "radec_of_altaz stub_services mid (Scalar (Fin 0), Scalar (Fin 90)) = Inr (zr, zd)"
  shows "nan_or_within 0 360 zr \<and> nan_or_within (- 90) 90 zd"
  using assms
  by (auto simp: stub_services_def nan_or_within_def elements_def in_range_def)

theorem C4_center_within_closed_ranges_witness:
  "get_pointing_center_dict stub_services
     (example_beam(''decal_ra'' \<mapsto> VInt 20, ''decal_dec'' \<mapsto> VInt 50)) =
     Inr (\<lparr>ra = Some (Scalar (Fin 360)), dec = Some (Scalar (Fin 90)),
           obs_direction_type = ''j2000''\<rparr>,
          example_beam(''decal_ra'' \<mapsto> VInt 20, ''decal_dec'' \<mapsto> VInt 50))
   \<and> (\<forall>mid. radec_of_altaz stub_services mid (Scalar (Fin 0), Scalar (Fin 90)) =
         Inr (Scalar (Fin 0), Scalar (Fin 90)))
   \<and> nan_or_within 0 360 (Scalar (Fin 0)) \<and> nan_or_within (- 90) 90 (Scalar (Fin 90))
   \<and> nan_or_within 0 360 (Scalar (Fin 360)) \<and> in_range 0 360 (Fin 360)
   \<and> in_range (- 90) 90 (Fin 90)"
  using example_beam_offsets
    C4_center_within_closed_ranges
      [OF example_beam_offsets, of "Scalar (Fin 360)" "Scalar (Fin 90)", OF _ _ stub_zenith]
  by (simp add: stub_services_def nan_or_within_def elements_def in_range_def)

text \<open>
  The claim as the spec states it fails: with \<open>angle1\<close> at 350 degrees and a
  \<open>decal_ra\<close> of 20, the right ascension is 360, outside the half-open interval.
\<close>

theorem C4_right_ascension_360_counterexample:
  "get_pointing_center_dict stub_services (example_beam(''decal_ra'' \<mapsto> VInt 20)) =
     Inr (\<lparr>ra = Some (Scalar (Fin 360)), dec = Some (Scalar (Fin 54)),
           obs_direction_type = ''j2000''\<rparr>,
          example_beam(''decal_ra'' \<mapsto> VInt 20))
   \<and> \<not> (360::real) < 360"
  by (simp add: get_pointing_center_dict_def example_beam_def getitem_def stub_services_def
        lower_J2000 Let_def resolve_j2000_def to_deg_def has_decal_altaz_def offset_radec_def
        get_float_def py_float_def float_int_def constrain_angle_def holds_scalar coord_add_def)

text \<open>
  A \<open>decal_ra\<close> that reads \<open>nan\<close> is accepted by \<open>float\<close> and comes out as the
  right ascension: the sum is not-a-number and the clamp lets it through. The
  same spelling is accepted for an angle when the store coerces it.
\<close>

lemma coerce_angle_nan: "coerce nan_services ''angle1'' ''nan'' = Inr (VAngle NaN)"
  by (simp add: coerce_def replace_char_def startswith_def endswith_def lower_def lower_char_def
        contains_def nan_services_def stub_services_def)

lemma nan_offset_is_returned:
  "get_pointing_center_dict nan_services (example_beam(''decal_ra'' \<mapsto> VStr ''nan'')) =
     Inr (\<lparr>ra = Some (Scalar NaN), dec = Some (Scalar (Fin 54)),
           obs_direction_type = ''j2000''\<rparr>,
          example_beam(''decal_ra'' \<mapsto> VStr ''nan''))"
  by (simp add: get_pointing_center_dict_def example_beam_def getitem_def nan_services_def
        stub_services_def
        lower_J2000 Let_def resolve_j2000_def to_deg_def has_decal_altaz_def offset_radec_def
        get_float_def py_float_def constrain_angle_def holds_scalar coord_add_def)

text \<open>
  Angles written as bracketed lists are stored as lists. In the \<open>azelgeo\<close>
  branch a list of one zero gives coordinates that are one-element arrays, and
  a list with another number in it raises \<open>ValueError\<close>.
\<close>

lemma coerce_angle_list: "coerce svc ''angle1'' ''[0]'' = Inr (VList [EInt 0])"
  by code_simp

lemma list_angle_gives_array:
  "get_pointing_center_dict stub_services (transit_beam [EInt 0]) =
     Inr (\<lparr>ra = Some (Array [Fin 0]), dec = Some (Array [Fin 0]),
           obs_direction_type = ''azelgeo''\<rparr>,
          transit_beam [EInt 0])"
  by (simp add: get_pointing_center_dict_def transit_beam_def getitem_def stub_services_def
        lower_azelgeo Let_def resolve_azelgeo_def angle_add_def
        get_float_def constrain_angle_def holds_single coord_add_def)

lemma list_angle_nonzero_raises:
  "get_pointing_center_dict stub_services (transit_beam [EInt 1, EInt 2]) = Inl ValueError"
  by (simp add: get_pointing_center_dict_def transit_beam_def getitem_def stub_services_def
        lower_azelgeo Let_def resolve_azelgeo_def angle_add_def get_float_def)

text \<open>
  Claim C6, as the source has it. For every entity whose \<open>directionType\<close> is
  \<open>natif\<close> in any letter case and that has no \<open>azelFile\<close> field, the resolver
  returns null right ascension and declination, whatever the other fields are;
  the hypotheses on \<open>duration\<close> and \<open>startTime\<close> are the two calls the resolver
  makes before it dispatches.
\<close>

theorem C6_natif_without_azelfile:
  assumes "property ''directionType'' = Some (VStr dt)" and "lower dt = ''natif''"
    and "property ''azelFile'' = None"
    and "property ''duration'' = Some dv" and "time_delta svc dv = Inr d"
    and "property ''startTime'' = Some st" and "time_plus svc st d = Inr stop"
  shows "get_pointing_center_dict svc property =
           Inr (\<lparr>ra = None, dec = None, obs_direction_type = ''natif''\<rparr>, property)"
  using assms
  by (simp add: get_pointing_center_dict_def getitem_def Let_def)

theorem C6_natif_without_azelfile_witness:
  "natif_entity ''directionType'' = Some (VStr ''Natif'') \<and> lower ''Natif'' = ''natif''
   \<and> natif_entity ''azelFile'' = None
   \<and> natif_entity ''duration'' = Some (VInt 600)
   \<and> time_delta stub_services (VInt 600) = Inr 600
   \<and> natif_entity ''startTime'' = Some (VTime 0)
   \<and> time_plus stub_services (VTime 0) 600 = Inr 600
   \<and> get_pointing_center_dict stub_services natif_entity =
       Inr (\<lparr>ra = None, dec = None, obs_direction_type = ''natif''\<rparr>, natif_entity)"
  using C6_natif_without_azelfile
          [of natif_entity "''Natif''" "VInt 600" stub_services 600 "VTime 0" 600]
  by (simp add: natif_entity_def lower_Natif stub_services_def)

text \<open>
  The claim as the spec states it fails: the same entity with an \<open>azelFile\<close>
  field resolves to the zenith, with coordinates that are not null.
\<close>

theorem C6_natif_with_azelfile_counterexample:
  "(natif_entity(''azelFile'' \<mapsto> VStr ''track.altazA'')) ''directionType'' = Some (VStr ''Natif'')
   \<and> get_pointing_center_dict stub_services
        (natif_entity(''azelFile'' \<mapsto> VStr ''track.altazA'')) =
       Inr (\<lparr>ra = Some (Scalar (Fin 0)), dec = Some (Scalar (Fin 90)),
             obs_direction_type = ''azelgeo_azelfile''\<rparr>,
            natif_entity(''azelFile'' \<mapsto> VStr ''track.altazA'',
                         ''directionType'' \<mapsto> VStr ''azelgeo_azelfile''))"
  by (simp add: get_pointing_center_dict_def natif_entity_def getitem_def stub_services_def
        setitem_azelfile lower_azelfile Let_def resolve_azelfile_def)

text \<open>
  Claim C7. For every entity on which an \<open>azelFile\<close> field is present, the
  resolver takes the zenith branch and reports the direction type
  \<open>azelgeo_azelfile\<close>, whatever the entity's own \<open>directionType\<close> is (no
  hypothesis mentions it). The other hypotheses say that the calls made on the
  way do not raise: the duration and the start time are there, and the
  coordinate service answers for the zenith at the middle of the observation.
\<close>

theorem C7_azelfile_overrides:
  assumes "property ''azelFile'' = Some av"
    and "property ''duration'' = Some dv" and "time_delta svc dv = Inr d"
    and "property ''startTime'' = Some st" and "time_plus svc st d = Inr stop"
    and "time_plus svc st (d / 2) = Inr mid"
    and "radec_of_altaz svc mid (Scalar (Fin 0), Scalar (Fin 90)) = Inr (r, dc)"
  shows "get_pointing_center_dict svc property =
           Inr (\<lparr>ra = Some r, dec = Some dc, obs_direction_type = ''azelgeo_azelfile''\<rparr>,
                property(''directionType'' \<mapsto> VStr ''azelgeo_azelfile''))"
  using assms
  by (simp add: get_pointing_center_dict_def getitem_def setitem_azelfile lower_azelfile
        resolve_azelfile_def Let_def)

theorem C7_azelfile_overrides_witness:
  "(example_beam(''azelFile'' \<mapsto> VStr ''track.altazA'')) ''azelFile'' = Some (VStr ''track.altazA'')
   \<and> (example_beam(''azelFile'' \<mapsto> VStr ''track.altazA'')) ''directionType'' = Some (VStr ''J2000'')
   \<and> (example_beam(''azelFile'' \<mapsto> VStr ''track.altazA'')) ''duration'' = Some (VInt 600)
   \<and> time_delta stub_services (VInt 600) = Inr 600
   \<and> (example_beam(''azelFile'' \<mapsto> VStr ''track.altazA'')) ''startTime'' = Some (VTime 0)
   \<and> time_plus stub_services (VTime 0) 600 = Inr 600
   \<and> time_plus stub_services (VTime 0) (600 / 2) = Inr 300
   \<and> radec_of_altaz stub_services 300 (Scalar (Fin 0), Scalar (Fin 90)) =
       Inr (Scalar (Fin 0), Scalar (Fin 90))
   \<and> get_pointing_center_dict stub_services (example_beam(''azelFile'' \<mapsto> VStr ''track.altazA'')) =
       Inr (\<lparr>ra = Some (Scalar (Fin 0)), dec = Some (Scalar (Fin 90)),
             obs_direction_type = ''azelgeo_azelfile''\<rparr>,
            example_beam(''azelFile'' \<mapsto> VStr ''track.altazA'',
                         ''directionType'' \<mapsto> VStr ''azelgeo_azelfile''))"
  using C7_azelfile_overrides
          [of "example_beam(''azelFile'' \<mapsto> VStr ''track.altazA'')" "VStr ''track.altazA''"
              "VInt 600" stub_services 600 "VTime 0" 600 300 "Scalar (Fin 0)" "Scalar (Fin 90)"]
  by (simp add: example_beam_def stub_services_def)


section \<open>Properties of the decoder\<close>

lemma dispatch_line_content:
  assumes "dispatch_line svc st1 line key value = Inr st"
  shows "content st = content st1"
  using assms
  by (auto simp: dispatch_line_def split: sum.splits if_splits)

lemma decode_line_content:
  assumes "decode_line svc st0 line0 = Inr st"
  shows "\<exists>c k v. content st = Some c \<and> split1 c (CHR ''='') = [k, v]"
proof (cases "content (bind_line st0 line0)")
  case None
  then show ?thesis using assms by (simp add: decode_line_def)
next
  case (Some c)
  show ?thesis
  proof (cases "\<exists>k v. split1 c (CHR ''='') = [k, v]")
    case True
    then obtain k v where kv: "split1 c (CHR ''='') = [k, v]" by blast
    then have "dispatch_line svc (bind_line st0 line0) line0 k v = Inr st"
      using assms Some by (simp add: decode_line_def)
    then have "content st = Some c"
      using dispatch_line_content Some by metis
    then show ?thesis using kv by blast
  next
    case False
    then have "decode_line svc st0 line0 = Inl ValueError"
      using Some by (auto simp: decode_line_def split: list.splits)
    then show ?thesis using assms by simp
  qed
qed

lemma split1_absent: "c \<notin> set s \<Longrightarrow> split1 s c = [s]"
  by (simp add: split1_def)

lemma decode_line_undotted:
  assumes "content st = Some c" and "split1 c (CHR ''='') = [k, v]"
    and "CHR ''.'' \<notin> set line" and "\<not> has_section_prefix line"
  shows "decode_line svc st line = Inr st"
  using assms
  by (simp add: decode_line_def bind_line_def dispatch_line_def split1_absent has_section_prefix_def)

lemma decode_line_no_equals:
  assumes "CHR ''.'' \<in> set line"
    and "CHR ''='' \<notin> set (tl (dropWhile (\<lambda>x. x \<noteq> CHR ''.'') line))"
  shows "decode_line svc st line = Inl ValueError"
  using assms
  by (simp add: decode_line_def bind_line_def split1_def)

lemma coerce_title_a: "coerce svc ''title'' (nl ''a'') = Inr (VStr ''a'')"
  by (simp add: coerce_def nl_def replace_char_def startswith_def endswith_def lower_def lower_char_def
        isdigit_def is_digit_def)

lemma split1_title: "split1 (nl ''Observation.title=a'') (CHR ''.'') = [''Observation'', nl ''title=a'']"
  by (simp add: split1_def nl_def)

lemma split1_title_eq: "split1 (nl ''title=a'') (CHR ''='') = [''title'', nl ''a'']"
  by (simp add: split1_def nl_def)

lemma startswith_title: "startswith (nl ''Observation.title=a'') ''Observation''"
  by (simp add: startswith_def nl_def)

lemma decode_title: "decode_line stub_services new_parset (nl ''Observation.title=a'') = Inr after_title"
  by (simp add: decode_line_def bind_line_def split1_title split1_title_eq dispatch_line_def
        startswith_title setitem_def coerce_title_a new_parset_def after_title_def)

lemma split1_contact:
  "split1 (nl ''Observation.contactName'') (CHR ''.'') = [''Observation'', nl ''contactName'']"
  by (simp add: split1_def nl_def)

lemma split1_contact_eq: "split1 (nl ''contactName'') (CHR ''='') = [nl ''contactName'']"
  by (simp add: split1_def nl_def)

lemma decode_contact:
  "decode_line stub_services after_title (nl ''Observation.contactName'') = Inl ValueError"
  by (simp add: decode_line_def bind_line_def split1_contact split1_contact_eq)

text \<open>A blank first line finds \<open>content\<close> unbound and ends the decoding.\<close>

lemma blank_first_line:
  "decodeParset svc ([CHR 0x0A] # rest) user_file = Inl UnboundLocalError"
  by (simp add: decodeParset_def decode_line_def bind_line_def split1_def new_parset_def)
text \<open>
  Claim C2, as the source has it. After any line the decoder has processed: a
  line that has no dot (a blank line in particular) and starts with none of the
  section names is skipped, the state is unchanged and decoding goes on with the
  remaining lines; a line that has a dot but no equals sign after it is not
  skipped, decoding ends there with \<open>ValueError\<close>.
\<close>

theorem C2_line_handling:
  assumes "decode_line svc st0 line0 = Inr st"
  shows "(line \<noteq> [] \<and> CHR ''.'' \<notin> set line \<and> \<not> has_section_prefix line
            \<longrightarrow> decode_lines svc st (line # rest) = decode_lines svc st rest)
       \<and> (CHR ''.'' \<in> set bad \<and> CHR ''='' \<notin> set (tl (dropWhile (\<lambda>x. x \<noteq> CHR ''.'') bad))
            \<longrightarrow> decode_lines svc st (bad # rest) = Inl ValueError)"
proof -
  obtain c k v where c: "content st = Some c" "split1 c (CHR ''='') = [k, v]"
    using decode_line_content [OF assms] by blast
  have skip: "decode_lines svc st (line # rest) = decode_lines svc st rest"
    if "line \<noteq> []" "CHR ''.'' \<notin> set line" "\<not> has_section_prefix line"
    using that decode_line_undotted [OF c] by simp
  have abort: "decode_lines svc st (bad # rest) = Inl ValueError"
    if "CHR ''.'' \<in> set bad" "CHR ''='' \<notin> set (tl (dropWhile (\<lambda>x. x \<noteq> CHR ''.'') bad))"
  proof -
    have "bad \<noteq> []" using that(1) by auto
    then show ?thesis using decode_line_no_equals [OF that] by simp
  qed
  show ?thesis using skip abort by blast
qed

theorem C2_line_handling_witness:
  "decode_line stub_services new_parset (nl ''Observation.title=a'') = Inr after_title
   \<and> nl [] \<noteq> [] \<and> CHR ''.'' \<notin> set (nl []) \<and> \<not> has_section_prefix (nl [])
   \<and> decode_lines stub_services after_title (nl [] # [nl ''Observation.name=b''])
       = decode_lines stub_services after_title [nl ''Observation.name=b'']
   \<and> CHR ''.'' \<in> set (nl ''Observation.contactName'')
   \<and> CHR ''='' \<notin> set (tl (dropWhile (\<lambda>x. x \<noteq> CHR ''.'') (nl ''Observation.contactName'')))
   \<and> decode_lines stub_services after_title
        (nl ''Observation.contactName'' # [nl ''Observation.name=b'']) = Inl ValueError"
proof -
  have facts:
    "nl [] \<noteq> []" "CHR ''.'' \<notin> set (nl [])" "\<not> has_section_prefix (nl [])"
    "CHR ''.'' \<in> set (nl ''Observation.contactName'')"
    "CHR ''='' \<notin> set (tl (dropWhile (\<lambda>x. x \<noteq> CHR ''.'') (nl ''Observation.contactName'')))"
    by (simp_all add: nl_def has_section_prefix_def startswith_def)
  show ?thesis
    using decode_title facts
      C2_line_handling [OF decode_title, of "nl []" "[nl ''Observation.name=b'']"
        "nl ''Observation.contactName''"]
    by blast
qed

text \<open>
  The claim as the spec states it fails: the second line below has no equals
  sign, and the decoder raises instead of going on to the third.
\<close>

theorem C2_missing_equals_counterexample:
  "decodeParset stub_services
     [nl ''Observation.title=a'', nl ''Observation.contactName'', nl ''Observation.name=b''] None
     = Inl ValueError"
proof -
  have "nl ''Observation.title=a'' \<noteq> []" "nl ''Observation.contactName'' \<noteq> []"
    by (simp_all add: nl_def)
  then show ?thesis
    by (simp add: decodeParset_def decode_title decode_contact)
qed



section \<open>Properties of \<open>add_pointing\<close>\<close>

lemma where_equal_absent:
  assumes "n \<notin> set idx"
  shows "where_equal svc idx (VInt n) = Inr []"
proof -
  have "filter (\<lambda>i. idx ! i = n) [0..<length idx] = []"
    using assms by (auto simp: filter_empty_conv)
  then show ?thesis by (simp add: where_equal_def)
qed

lemma resolver_keeps_noBeam:
  assumes "get_pointing_center_dict svc beam0 = Inr (cen, beam)"
  shows "beam ''noBeam'' = beam0 ''noBeam''"
proof (cases "beam0 ''azelFile'' = None")
  case True
  then have "beam = beam0"
    using assms
    by (auto simp: get_pointing_center_dict_def Let_def split: sum.splits pvalue.splits prod.splits)
  then show ?thesis by simp
next
  case False
  then have "beam = beam0(''directionType'' \<mapsto> VStr ''azelgeo_azelfile'')"
    using assms azelfile_always_reported by blast
  then show ?thesis by simp
qed

text \<open>
  Claim C9. For a beam whose \<open>noBeam\<close> is an integer that is the index of no
  field-of-view of the entry, \<open>add_pointing\<close> never returns: no pointing is
  attached, the exception leaves the builder, which has no handler around the
  call. When the steps before the lookup succeed (the target, the center, the
  time window and the receiver document), the exception is \<open>IndexError\<close>, raised
  by taking the first element of an empty search result.
\<close>

theorem C9_dangling_noBeam_raises:
  assumes "beam0 ''noBeam'' = Some (VInt n)" and "n \<notin> set (fov_indices je)"
  shows "(\<exists>e. add_pointing svc idx beam0 version func je = Inl e)
       \<and> (getitem beam0 ''target'' = Inr name
            \<and> get_pointing_center_dict svc beam0 = Inr (cen, beam)
            \<and> get_time_dict svc beam = Inr tim
            \<and> (case func of None \<Rightarrow> select_setting beam | Some g \<Rightarrow> Inr g) = Inr f
            \<and> f svc beam (je_output je) version = Inr recv
          \<longrightarrow> add_pointing svc idx beam0 version func je = Inl IndexError)"
proof -
  have lookup: "where_equal svc (fov_indices je) (VInt n) = Inr []"
    using assms(2) by (rule where_equal_absent)
  have nb: "getitem beam ''noBeam'' = Inr (VInt n)"
    if "get_pointing_center_dict svc beam0 = Inr (cen, beam)" for cen beam
    using resolver_keeps_noBeam [OF that] assms(1) by (simp add: getitem_def)
  have never: "\<exists>e. add_pointing svc idx beam0 version func je = Inl e"
    using lookup nb
    by (auto simp: add_pointing_def split: sum.splits prod.splits list.splits)
  have exact: "add_pointing svc idx beam0 version func je = Inl IndexError"
    if "getitem beam0 ''target'' = Inr name"
      "get_pointing_center_dict svc beam0 = Inr (cen, beam)"
      "get_time_dict svc beam = Inr tim"
      "(case func of None \<Rightarrow> select_setting beam | Some g \<Rightarrow> Inr g) = Inr f"
      "f svc beam (je_output je) version = Inr recv"
    using that lookup nb [OF that(2)] by (simp add: add_pointing_def)
  show ?thesis using never exact by blast
qed

lemma dangling_center:
  "get_pointing_center_dict stub_services dangling_beam =
     Inr (\<lparr>ra = None, dec = None, obs_direction_type = ''natif''\<rparr>, dangling_beam)"
  by (simp add: get_pointing_center_dict_def dangling_beam_def natif_entity_def getitem_def
        stub_services_def lower_Natif Let_def)

lemma dangling_time:
  "get_time_dict stub_services dangling_beam =
     Inr \<lparr>t_gte = ''2020-01-01T00:00:00'', t_lte = ''2020-01-01T00:00:00'', t_duration = 600\<rparr>"
  by (simp add: get_time_dict_def dangling_beam_def natif_entity_def getitem_def
        stub_services_def np_round3_def round_half_even_def)

lemma dangling_select: "select_setting dangling_beam = Inr default_setting"
  by (simp add: select_setting_def dangling_beam_def natif_entity_def BEAM_SETTINGS_def)

lemma np_split_single: "np_split [100 :: int] (split_points [100]) = [ [100] ]"
  by (simp add: np_split_def split_points_def np_diff_def)

lemma dangling_receiver:
  "default_setting stub_services dangling_beam Map.empty [1, 0] =
     Inr [''name'' \<mapsto> RStr ''LaNewBa'',
          ''dt'' \<mapsto> RQuantity (Fin 1) ''s'',
          ''df'' \<mapsto> RQuantity (Fin SB_WIDTH) ''kHz'',
          ''frequency'' \<mapsto>
            RFreq [\<lparr>fq_gte = 19.53125, fq_lt = 19.7265625, fq_unit = ''MHz''\<rparr>] ]"
  by (simp add: default_setting_def get_frequency_dict_def dangling_beam_def natif_entity_def
        getitem_def int_array_def np_split_single freq_group_def stub_services_def SB_WIDTH_def)

theorem C9_dangling_noBeam_raises_witness:
  "dangling_beam ''noBeam'' = Some (VInt 3)
   \<and> 3 \<notin> set (fov_indices (example_entry [example_fov [] [] ]))
   \<and> getitem dangling_beam ''target'' = Inr (VStr ''Zenith'')
   \<and> get_pointing_center_dict stub_services dangling_beam =
       Inr (\<lparr>ra = None, dec = None, obs_direction_type = ''natif''\<rparr>, dangling_beam)
   \<and> select_setting dangling_beam = Inr default_setting
   \<and> add_pointing stub_services 0 dangling_beam [1, 0] None (example_entry [example_fov [] [] ])
       = Inl IndexError"
proof -
  have a: "dangling_beam ''noBeam'' = Some (VInt 3)"
    by (simp add: dangling_beam_def)
  have b: "3 \<notin> set (fov_indices (example_entry [example_fov [] [] ]))"
    by (simp add: fov_indices_def example_entry_def example_fov_def)
  have t: "getitem dangling_beam ''target'' = Inr (VStr ''Zenith'')"
    by (simp add: getitem_def dangling_beam_def)
  have o: "je_output (example_entry [example_fov [] [] ]) = Map.empty"
    by (simp add: example_entry_def)
  show ?thesis
    using a b t dangling_center dangling_select dangling_time dangling_receiver o
      C9_dangling_noBeam_raises
        [where ?beam0.0 = dangling_beam and n = 3
           and je = "example_entry [example_fov [] [] ]"
           and svc = stub_services and idx = 0 and version = "[1, 0]" and func = None
           and name = "VStr ''Zenith''"
           and cen = "\<lparr>ra = None, dec = None, obs_direction_type = ''natif''\<rparr>"
           and beam = dangling_beam
           and tim = "\<lparr>t_gte = ''2020-01-01T00:00:00'', t_lte = ''2020-01-01T00:00:00'',
                       t_duration = 600\<rparr>"
           and f = default_setting
           and recv = "[''name'' \<mapsto> RStr ''LaNewBa'', ''dt'' \<mapsto> RQuantity (Fin 1) ''s'',
                        ''df'' \<mapsto> RQuantity (Fin SB_WIDTH) ''kHz'',
                        ''frequency'' \<mapsto>
                          RFreq [\<lparr>fq_gte = 19.53125, fq_lt = 19.7265625,
                                  fq_unit = ''MHz''\<rparr>] ]"]
    by simp
qed



section \<open>Properties of the writer's renumbering\<close>

lemma numbered_append:
  "numbered c (xs @ ys) = (numbered c xs \<and> numbered (c + int (length xs)) ys)"
  by (induction xs arbitrary: c) (auto simp: algebra_simps)

lemma numbered_nth: "numbered c bs \<Longrightarrow> i < length bs \<Longrightarrow> index (bs ! i) = c + int i"
proof (induction bs arbitrary: c i)
  case Nil
  then show ?case by simp
next
  case (Cons b bs)
  then show ?case by (cases i) auto
qed

lemma set_entry_keys: "map fst (set_entry svc key v conf) = map fst conf"
  by (induction conf) (auto simp: set_entry_def)

lemma map_of_set_entry:
  "key \<in> fst ` set conf \<Longrightarrow>
   \<exists>e. map_of (set_entry svc key v conf) key = Some e \<and> e_value e = writer_value svc v"
  by (induction conf) (auto simp: set_entry_def)

lemma modify_configuration_keys: "map fst (modify_configuration svc kw conf) = map fst conf"
proof (induction kw arbitrary: conf)
  case Nil
  then show ?case by (simp add: modify_configuration_def)
next
  case (Cons p kw)
  obtain key v where p: "p = (key, v)" by (cases p)
  have "modify_configuration svc (p # kw) conf =
          modify_configuration svc kw
            (if key \<in> fst ` set conf then set_entry svc key v conf else conf)"
    by (simp add: modify_configuration_def p)
  then show ?case using Cons.IH by (simp add: set_entry_keys)
qed

lemma has_noBeam_modify: "has_noBeam (modify_properties svc kw b) = has_noBeam b"
proof -
  have "fst ` set (modify_configuration svc kw (configuration b)) = fst ` set (configuration b)"
    using modify_configuration_keys [of svc kw "configuration b"]
    by (metis set_map)
  then show ?thesis by (simp add: has_noBeam_def modify_properties_def)
qed

lemma refers_to_after_set:
  assumes "has_noBeam b"
  shows "refers_to i (modify_properties svc [(''noBeam'', WInt i)] b)"
proof -
  have "modify_configuration svc [(''noBeam'', WInt i)] (configuration b) =
          set_entry svc ''noBeam'' (WInt i) (configuration b)"
    using assms by (simp add: modify_configuration_def has_noBeam_def)
  moreover obtain e where
    "map_of (set_entry svc ''noBeam'' (WInt i) (configuration b)) ''noBeam'' = Some e"
    "e_value e = writer_value svc (WInt i)"
    using map_of_set_entry assms unfolding has_noBeam_def by blast
  ultimately show ?thesis
    by (simp add: refers_to_def block_getitem_def modify_properties_def writer_value_def)
qed

lemma refers_to_has_noBeam: "refers_to i b \<Longrightarrow> has_noBeam b"
  by (auto simp: refers_to_def block_getitem_def has_noBeam_def
      split: option.splits dest: map_of_SomeD intro: rev_image_eqI)

lemma refers_to_index [simp]: "refers_to i (b\<lparr>index := c\<rparr>) = refers_to i b"
  by (simp add: refers_to_def block_getitem_def)


lemma refers_to_index_ana [simp]:
  "refers_to i (b\<lparr>numerical_beams := nbs\<rparr>) = refers_to i b"
  by (simp add: refers_to_def block_getitem_def)

lemma numbered_cong:
  "map index xs = map index ys \<Longrightarrow> numbered c xs = numbered c ys"
proof (induction xs arbitrary: ys c)
  case Nil
  then show ?case by simp
next
  case (Cons x xs)
  then obtain y ys' where "ys = y # ys'" by (cases ys) auto
  then show ?case using Cons by auto
qed

subsection \<open>Renumbering\<close>

lemma number_numbeams_numbered: "numbered c (number_numbeams c bs)"
  by (induction bs arbitrary: c) auto

lemma number_numbeams_configuration:
  "map configuration (number_numbeams c bs) = map configuration bs"
  by (induction bs arbitrary: c) auto

lemma number_numbeams_refers:
  "list_all (refers_to i) (number_numbeams c bs) = list_all (refers_to i) bs"
  by (induction bs arbitrary: c) auto

lemma number_numbeams_length: "length (number_numbeams c bs) = length bs"
  by (induction bs arbitrary: c) auto

lemma number_in_anabeams_index:
  "map index (number_in_anabeams c anas) = map index anas"
  by (induction anas arbitrary: c) auto

lemma number_in_anabeams_ok:
  "list_all anabeam_ok (number_in_anabeams c anas) = list_all anabeam_ok anas"
  by (induction anas arbitrary: c) (auto simp: anabeam_ok_def number_numbeams_refers)

lemma number_in_anabeams_numbered:
  "numbered c (concat (map numerical_beams (number_in_anabeams c anas)))"
  by (induction anas arbitrary: c)
     (auto simp: numbered_append number_numbeams_numbered number_numbeams_length)

lemma number_in_anabeams_configuration:
  "map configuration (concat (map numerical_beams (number_in_anabeams c anas))) =
   map configuration (concat (map numerical_beams anas))"
  by (induction anas arbitrary: c) (auto simp: number_numbeams_configuration)

lemma propagate_index_ok:
  assumes "list_all has_noBeam (numerical_beams a)"
  shows "anabeam_ok (propagate_index svc a)"
  using assms
  by (auto simp: anabeam_ok_def propagate_index_def list_all_iff refers_to_after_set)

lemma propagate_index_index [simp]: "index (propagate_index svc a) = index a"
  by (simp add: propagate_index_def)

lemma number_anabeams_numbered: "numbered c (number_anabeams svc c anas)"
  by (induction anas arbitrary: c) auto

lemma number_anabeams_ok:
  assumes "list_all (\<lambda>a. list_all has_noBeam (numerical_beams a)) anas"
  shows "list_all anabeam_ok (number_anabeams svc c anas)"
  using assms
  by (induction anas arbitrary: c) (auto intro: propagate_index_ok)

lemma anabeam_ok_has_noBeam:
  "anabeam_ok a \<Longrightarrow> list_all has_noBeam (numerical_beams a)"
  by (auto simp: anabeam_ok_def list_all_iff intro: refers_to_has_noBeam)

lemma renumber_all_ok:
  assumes "list_all (\<lambda>a. list_all has_noBeam (numerical_beams a)) anas"
  shows "hierarchy_ok (number_in_anabeams 0 (number_anabeams svc 0 anas))"
proof -
  have "numbered 0 (number_in_anabeams 0 (number_anabeams svc 0 anas))"
    using numbered_cong [OF number_in_anabeams_index] number_anabeams_numbered by blast
  then show ?thesis
    using assms
    by (simp add: hierarchy_ok_def number_in_anabeams_ok number_anabeams_ok
          number_in_anabeams_numbered)
qed

lemma renumber_numbeams_ok:
  assumes "numbered 0 anas" and "list_all anabeam_ok anas"
  shows "hierarchy_ok (number_in_anabeams 0 anas)"
proof -
  have "numbered 0 (number_in_anabeams 0 anas)"
    using numbered_cong [OF number_in_anabeams_index] assms(1) by blast
  then show ?thesis
    using assms(2)
    by (simp add: hierarchy_ok_def number_in_anabeams_ok number_in_anabeams_numbered)
qed


subsection \<open>Deleting a numerical beam\<close>

lemma delete_in_numbeams_eq:
  "delete_in_numbeams c k bs =
     (if c \<le> k \<and> k < c + int (length bs)
      then Inl (take (nat (k - c)) bs @ drop (Suc (nat (k - c))) bs)
      else Inr (c + int (length bs)))"
proof (induction bs arbitrary: c)
  case Nil
  then show ?case by simp
next
  case (Cons b bs)
  show ?case
  proof (cases "c = k")
    case True
    then show ?thesis by simp
  next
    case False
    show ?thesis
    proof (cases "c + 1 \<le> k \<and> k < c + 1 + int (length bs)")
      case True
      then have "nat (k - c) = Suc (nat (k - (c + 1)))" by linarith
      then show ?thesis using False True Cons.IH [of "c + 1"] by simp
    next
      case out: False
      have neg: "\<not> (c \<le> k \<and> k < c + int (length (b # bs)))" using False out by auto
      have "delete_in_numbeams (c + 1) k bs = Inr (c + 1 + int (length bs))"
        by (subst Cons.IH) (rule if_not_P [OF out])
      then have "delete_in_numbeams c k (b # bs) = Inr (c + int (length (b # bs)))"
        using False by simp
      then show ?thesis by (simp only: if_not_P [OF neg])
    qed
  qed
qed

lemma delete_in_anabeams_index:
  "map index (delete_in_anabeams c k anas) = map index anas"
  by (induction anas arbitrary: c) (auto split: sum.splits)

lemma delete_in_numbeams_subset:
  "delete_in_numbeams c k bs = Inl bs' \<Longrightarrow> set bs' \<subseteq> set bs"
  using set_take_subset [of "nat (k - c)" bs] set_drop_subset [of "Suc (nat (k - c))" bs]
  by (auto simp: delete_in_numbeams_eq split: if_splits)

lemma delete_in_anabeams_ok:
  "list_all anabeam_ok anas \<Longrightarrow> list_all anabeam_ok (delete_in_anabeams c k anas)"
proof (induction anas arbitrary: c)
  case Nil
  then show ?case by simp
next
  case (Cons a anas)
  show ?case
  proof (cases "delete_in_numbeams c k (numerical_beams a)")
    case (Inl nbs')
    then have "set nbs' \<subseteq> set (numerical_beams a)" by (rule delete_in_numbeams_subset)
    then have "anabeam_ok (a\<lparr>numerical_beams := nbs'\<rparr>)"
      using Cons.prems by (auto simp: anabeam_ok_def list_all_iff)
    then show ?thesis using Inl Cons.prems by simp
  next
    case (Inr c')
    then show ?thesis using Cons by simp
  qed
qed

lemma delete_in_anabeams_concat:
  "concat (map numerical_beams (delete_in_anabeams c k anas)) =
     (if c \<le> k \<and> k < c + int (length (concat (map numerical_beams anas)))
      then take (nat (k - c)) (concat (map numerical_beams anas))
             @ drop (Suc (nat (k - c))) (concat (map numerical_beams anas))
      else concat (map numerical_beams anas))"
proof (induction anas arbitrary: c)
  case Nil
  then show ?case by simp
next
  case (Cons a anas)
  let ?nbs = "numerical_beams a"
  let ?rest = "concat (map numerical_beams anas)"
  show ?case
  proof (cases "c \<le> k \<and> k < c + int (length ?nbs)")
    case True
    then have "nat (k - c) < length ?nbs" by linarith
    then show ?thesis using True by (simp add: delete_in_numbeams_eq)
  next
    case False
    have "delete_in_numbeams c k ?nbs = Inr (c + int (length ?nbs))"
      by (subst delete_in_numbeams_eq) (rule if_not_P [OF False])
    then have step: "delete_in_anabeams c k (a # anas) =
                  a # delete_in_anabeams (c + int (length ?nbs)) k anas"
      by simp
    show ?thesis
    proof (cases "c + int (length ?nbs) \<le> k \<and> k < c + int (length ?nbs) + int (length ?rest)")
      case True
      then have n: "nat (k - c) = length ?nbs + nat (k - (c + int (length ?nbs)))" by linarith
      have "c \<le> k \<and> k < c + int (length (?nbs @ ?rest))" using True by auto
      then show ?thesis
        using True step Cons.IH [of "c + int (length ?nbs)"] n by simp
    next
      case out: False
      have neg: "\<not> (c \<le> k \<and> k < c + int (length (concat (map numerical_beams (a # anas)))))"
        using False out by auto
      have "concat (map numerical_beams (delete_in_anabeams (c + int (length ?nbs)) k anas))
              = ?rest"
        by (subst Cons.IH) (rule if_not_P [OF out])
      then have "concat (map numerical_beams (delete_in_anabeams c k (a # anas))) =
                   concat (map numerical_beams (a # anas))"
        using step by simp
      then show ?thesis by (simp only: if_not_P [OF neg])
    qed
  qed
qed

subsection \<open>The operations keep the hierarchy consistent\<close>

lemma hierarchy_ok_has_noBeam:
  assumes "hierarchy_ok anas"
  shows "list_all (\<lambda>a. list_all has_noBeam (numerical_beams a)) anas"
proof -
  have "list_all has_noBeam (numerical_beams a)" if "a \<in> set anas" for a
    using assms that by (intro anabeam_ok_has_noBeam) (simp add: hierarchy_ok_def list_all_iff)
  then show ?thesis by (simp add: list_all_iff)
qed

lemma new_analog_beam_empty:
  "AnalogBeamParsetBlock svc reg kw = Inr a \<Longrightarrow> numerical_beams a = []"
  by (auto simp: AnalogBeamParsetBlock_def beam_block.defs split: sum.splits)

lemma new_numerical_beam_has_noBeam:
  assumes "registry_has_noBeam reg" and "NumericalBeamParsetBlock svc reg kw = Inr nb"
  shows "has_noBeam nb"
proof -
  obtain conf where conf: "map_of reg ''Beam'' = Some conf"
    and nb: "nb = modify_properties svc kw
                    (block.extend \<lparr>field = ''Beam'', configuration = conf\<rparr> \<lparr>index = 0\<rparr>)"
    using assms(2)
    by (auto simp: NumericalBeamParsetBlock_def BeamParsetBlock_def ParsetBlock_def
        split: option.splits)
  have "''noBeam'' \<in> fst ` set conf"
    using assms(1) conf by (simp add: registry_has_noBeam_def)
  then show ?thesis
    by (simp add: nb has_noBeam_modify) (simp add: has_noBeam_def block.defs)
qed

lemma add_analog_beam_ok:
  assumes "hierarchy_ok (analog_beams (user_observation pu))"
    and "add_analog_beam svc reg kw pu = Inr pu'"
  shows "hierarchy_ok (analog_beams (user_observation pu'))"
proof -
  obtain a where a: "AnalogBeamParsetBlock svc reg kw = Inr a"
    and pu': "analog_beams (user_observation pu') =
               number_in_anabeams 0
                 (number_anabeams svc 0 (analog_beams (user_observation pu) @ [a]))"
    using assms(2)
    by (auto simp: add_analog_beam_def updates_anabeams_indices_def
        updates_numbeams_indices_def split: sum.splits)
  have "list_all (\<lambda>a. list_all has_noBeam (numerical_beams a))
          (analog_beams (user_observation pu) @ [a])"
    using hierarchy_ok_has_noBeam [OF assms(1)] new_analog_beam_empty [OF a] by simp
  then show ?thesis unfolding pu' by (rule renumber_all_ok)
qed

lemma remove_analog_beam_ok:
  assumes "hierarchy_ok (analog_beams (user_observation pu))"
    and "remove_analog_beam svc i pu = Inr pu'"
  shows "hierarchy_ok (analog_beams (user_observation pu'))"
proof -
  obtain j where pu': "analog_beams (user_observation pu') =
               number_in_anabeams 0
                 (number_anabeams svc 0
                    (take j (analog_beams (user_observation pu))
                       @ drop (Suc j) (analog_beams (user_observation pu))))"
    using assms(2)
    by (auto simp: remove_analog_beam_def py_del_def updates_anabeams_indices_def
        updates_numbeams_indices_def split: sum.splits)
  have "set (take j (analog_beams (user_observation pu))
               @ drop (Suc j) (analog_beams (user_observation pu)))
          \<subseteq> set (analog_beams (user_observation pu))"
    using set_take_subset [of j "analog_beams (user_observation pu)"]
      set_drop_subset [of "Suc j" "analog_beams (user_observation pu)"]
    by auto
  then have "list_all (\<lambda>a. list_all has_noBeam (numerical_beams a))
          (take j (analog_beams (user_observation pu))
             @ drop (Suc j) (analog_beams (user_observation pu)))"
    using hierarchy_ok_has_noBeam [OF assms(1)] unfolding list_all_iff by blast
  then show ?thesis unfolding pu' by (rule renumber_all_ok)
qed

lemma numbered_update:
  "numbered c xs \<Longrightarrow> j < length xs \<Longrightarrow> index y = index (xs ! j) \<Longrightarrow> numbered c (xs[j := y])"
proof (induction xs arbitrary: c j)
  case Nil
  then show ?case by simp
next
  case (Cons x xs)
  then show ?case by (cases j) auto
qed

lemma add_numerical_beam_ok:
  assumes "registry_has_noBeam reg"
    and "hierarchy_ok (analog_beams (user_observation pu))"
    and "add_numerical_beam svc reg i kw pu = Inr pu'"
  shows "hierarchy_ok (analog_beams (user_observation pu'))"
proof -
  let ?anas = "analog_beams (user_observation pu)"
  obtain j nb where j: "py_position ?anas i = Inr j"
    and nb: "NumericalBeamParsetBlock svc reg kw = Inr nb"
    and pu': "analog_beams (user_observation pu') =
               number_in_anabeams 0
                 (?anas[j := propagate_index svc
                    ((?anas ! j)\<lparr>numerical_beams := numerical_beams (?anas ! j) @ [nb]\<rparr>)])"
    using assms(3)
    by (auto simp: add_numerical_beam_def updates_numbeams_indices_def Let_def
        split: sum.splits)
  let ?a = "propagate_index svc
              ((?anas ! j)\<lparr>numerical_beams := numerical_beams (?anas ! j) @ [nb]\<rparr>)"
  have jlt: "j < length ?anas"
    using j by (auto simp: py_position_def Let_def split: if_splits)
  have old: "list_all has_noBeam (numerical_beams (?anas ! j))"
    using hierarchy_ok_has_noBeam [OF assms(2)] jlt by (simp add: list_all_length)
  have "anabeam_ok ?a"
    using old new_numerical_beam_has_noBeam [OF assms(1) nb]
    by (intro propagate_index_ok) simp
  moreover have "list_all anabeam_ok ?anas"
    using assms(2) by (simp add: hierarchy_ok_def)
  ultimately have "list_all anabeam_ok (?anas[j := ?a])"
    using set_update_subset_insert [of ?anas j ?a] unfolding list_all_iff by blast
  moreover have "numbered 0 (?anas[j := ?a])"
    using assms(2) jlt by (intro numbered_update) (simp_all add: hierarchy_ok_def)
  ultimately show ?thesis unfolding pu' by (intro renumber_numbeams_ok)
qed

lemma remove_numerical_beam_ok:
  assumes "hierarchy_ok (analog_beams (user_observation pu))"
  shows "hierarchy_ok (analog_beams (user_observation (remove_numerical_beam k pu)))"
proof -
  have "numbered 0 (delete_in_anabeams 0 k (analog_beams (user_observation pu)))"
    using numbered_cong [OF delete_in_anabeams_index] assms by (simp add: hierarchy_ok_def)
  moreover have "list_all anabeam_ok (delete_in_anabeams 0 k (analog_beams (user_observation pu)))"
    using assms by (intro delete_in_anabeams_ok) (simp add: hierarchy_ok_def)
  ultimately show ?thesis
    by (simp add: remove_numerical_beam_def updates_numbeams_indices_def renumber_numbeams_ok)
qed

lemma api_run_ok:
  assumes "registry_has_noBeam reg"
    and "hierarchy_ok (analog_beams (user_observation pu))"
    and "api_run svc reg calls pu = Inr pu'"
  shows "hierarchy_ok (analog_beams (user_observation pu'))"
  using assms(2,3)
proof (induction calls arbitrary: pu)
  case Nil
  then show ?case by simp
next
  case (Cons c calls)
  then obtain pu1 where step: "api_step svc reg c pu = Inr pu1"
    and rest: "api_run svc reg calls pu1 = Inr pu'"
    by (auto split: sum.splits)
  have "hierarchy_ok (analog_beams (user_observation pu1))"
  proof (cases c)
    case (AddAnalogBeam kw)
    then show ?thesis using step Cons.prems(1) add_analog_beam_ok by auto
  next
    case (RemoveAnalogBeam i)
    then show ?thesis using step Cons.prems(1) remove_analog_beam_ok by auto
  next
    case (AddNumericalBeam i kw)
    then show ?thesis using step Cons.prems(1) add_numerical_beam_ok [OF assms(1)] by auto
  next
    case (RemoveNumericalBeam k)
    then show ?thesis using step Cons.prems(1) remove_numerical_beam_ok by auto
  qed
  then show ?case using Cons.IH rest by blast
qed

lemma build_ok:
  assumes "registry_has_noBeam reg" and "build svc reg calls = Inr pu"
  shows "hierarchy_ok (analog_beams (user_observation pu))"
proof -
  obtain pu0 where pu0: "ParsetUser svc reg = Inr pu0"
    and run: "api_run svc reg calls pu0 = Inr pu"
    using assms(2) by (auto simp: build_def split: sum.splits)
  have "analog_beams (user_observation pu0) = []"
    using pu0
    by (auto simp: ParsetUser_def ObservationParsetBlock_def block.defs split: sum.splits)
  then have "hierarchy_ok (analog_beams (user_observation pu0))"
    by (simp add: hierarchy_ok_def)
  then show ?thesis using api_run_ok [OF assms(1) _ run] by blast
qed



subsection \<open>Removing a numerical beam\<close>

lemma build_example: "build stub_services example_registry example_calls = Inr example_hierarchy"
  by code_simp


lemma removed_numbeams:
  assumes "0 \<le> k" and "k < int (length (all_numbeams pu))"
  shows "map configuration (all_numbeams (remove_numerical_beam k pu)) =
           map configuration
             (take (nat k) (all_numbeams pu) @ drop (Suc (nat k)) (all_numbeams pu))"
proof -
  have "concat (map numerical_beams
                  (delete_in_anabeams 0 k (analog_beams (user_observation pu)))) =
          take (nat k) (all_numbeams pu) @ drop (Suc (nat k)) (all_numbeams pu)"
    using assms by (simp add: delete_in_anabeams_concat all_numbeams_def)
  then show ?thesis
    by (simp add: all_numbeams_def remove_numerical_beam_def updates_numbeams_indices_def
          number_in_anabeams_configuration)
qed

lemma nth_without:
  assumes "n < length xs" and "j < length xs - 1"
  shows "(take n xs @ drop (Suc n) xs) ! j = xs ! (if j < n then j else Suc j)"
  using assms by (auto simp: nth_append min_def)

text \<open>
  Claim C8. In every hierarchy built by the public operations of the writer,
  from a registry that declares \<open>noBeam\<close> for \<open>Beam\<close>, removing the numerical beam
  at a position \<open>k\<close> that exists leaves one beam fewer; every remaining beam keeps
  its configuration, has its index decreased by one if that index was above
  \<open>k\<close> and unchanged otherwise; and the \<open>noBeam\<close> field of every remaining beam
  is the index of an analog beam of the hierarchy.
\<close>

theorem C8_remove_numerical_beam_renumbers:
  assumes "registry_has_noBeam reg" and "build svc reg calls = Inr pu"
    and "0 \<le> k" and "k < int (length (all_numbeams pu))"
  shows "length (all_numbeams (remove_numerical_beam k pu)) = length (all_numbeams pu) - 1
       \<and> (\<forall>j < length (all_numbeams (remove_numerical_beam k pu)).
             configuration (all_numbeams (remove_numerical_beam k pu) ! j) =
               configuration (all_numbeams pu ! origin k j)
             \<and> index (all_numbeams (remove_numerical_beam k pu) ! j) =
                 (if index (all_numbeams pu ! origin k j) > k
                  then index (all_numbeams pu ! origin k j) - 1
                  else index (all_numbeams pu ! origin k j)))
       \<and> (\<forall>b \<in> set (all_numbeams (remove_numerical_beam k pu)).
             \<exists>a \<in> set (analog_beams (user_observation (remove_numerical_beam k pu))).
               block_getitem b ''noBeam'' = Inr (WInt (index a)))"
proof -
  let ?bs = "all_numbeams pu"
  let ?pu' = "remove_numerical_beam k pu"
  let ?bs' = "all_numbeams ?pu'"
  let ?n = "nat k"
  have ok: "hierarchy_ok (analog_beams (user_observation pu))"
    using assms(1,2) by (rule build_ok)
  have ok': "hierarchy_ok (analog_beams (user_observation ?pu'))"
    using ok by (rule remove_numerical_beam_ok)
  have n: "?n < length ?bs" using assms(3,4) by linarith
  have conf: "map configuration ?bs' = map configuration (take ?n ?bs @ drop (Suc ?n) ?bs)"
    using assms(3,4) by (rule removed_numbeams)
  have "length ?bs' = length (take ?n ?bs @ drop (Suc ?n) ?bs)"
    using conf by (metis length_map)
  then have len: "length ?bs' = length ?bs - 1" using n by simp
  have each: "configuration (?bs' ! j) = configuration (?bs ! origin k j)
            \<and> index (?bs' ! j) =
                (if index (?bs ! origin k j) > k then index (?bs ! origin k j) - 1
                 else index (?bs ! origin k j))"
    if j: "j < length ?bs'" for j
  proof -
    have o: "origin k j = (if j < ?n then j else Suc j)"
      using assms(3) by (auto simp: origin_def)
    have olt: "origin k j < length ?bs" using j len o by auto
    have "configuration (?bs' ! j) = map configuration ?bs' ! j" using j by simp
    also have "\<dots> = configuration ((take ?n ?bs @ drop (Suc ?n) ?bs) ! j)"
    proof -
      have "j < length (take ?n ?bs @ drop (Suc ?n) ?bs)" using j len n by simp
      then show ?thesis by (simp only: conf nth_map)
    qed
    also have "\<dots> = configuration (?bs ! origin k j)"
      using nth_without [OF n, of j] j len o by simp
    finally have c: "configuration (?bs' ! j) = configuration (?bs ! origin k j)" .
    have new: "index (?bs' ! j) = int j"
      using ok' j numbered_nth [of 0 ?bs' j] by (simp add: hierarchy_ok_def all_numbeams_def)
    have old: "index (?bs ! origin k j) = int (origin k j)"
      using ok olt numbered_nth [of 0 ?bs "origin k j"]
      by (simp add: hierarchy_ok_def all_numbeams_def)
    have "int j = (if int (origin k j) > k then int (origin k j) - 1 else int (origin k j))"
      using assms(3) by (auto simp: origin_def)
    then show ?thesis using c new old by simp
  qed
  have noref: "\<exists>a \<in> set (analog_beams (user_observation ?pu')).
                block_getitem b ''noBeam'' = Inr (WInt (index a))"
    if bmem: "b \<in> set ?bs'" for b
  proof -
    obtain a where a: "a \<in> set (analog_beams (user_observation ?pu'))"
      and b: "b \<in> set (numerical_beams a)"
      using bmem by (auto simp: all_numbeams_def)
    have "anabeam_ok a" using ok' a by (simp add: hierarchy_ok_def list_all_iff)
    then have "refers_to (index a) b" using b by (simp add: anabeam_ok_def list_all_iff)
    then show ?thesis using a by (auto simp: refers_to_def)
  qed
  show ?thesis using len each noref by blast
qed

lemma example_registry_has_noBeam: "registry_has_noBeam example_registry"
  by (simp add: registry_has_noBeam_def example_registry_def)

lemma example_count: "length (all_numbeams example_hierarchy) = 3"
  by code_simp

lemma example_removed:
  "map (\<lambda>b. (index b, block_getitem b ''target'', block_getitem b ''noBeam''))
       (all_numbeams (remove_numerical_beam 1 example_hierarchy)) =
     [(0, Inr (WStr ''a''), Inr (WInt 0)), (1, Inr (WStr ''b''), Inr (WInt 1))]"
  by code_simp

theorem C8_remove_numerical_beam_renumbers_witness:
  "registry_has_noBeam example_registry
   \<and> build stub_services example_registry example_calls = Inr example_hierarchy
   \<and> (0::int) \<le> 1 \<and> (1::int) < int (length (all_numbeams example_hierarchy))
   \<and> length (all_numbeams (remove_numerical_beam 1 example_hierarchy)) =
       length (all_numbeams example_hierarchy) - 1
   \<and> map (\<lambda>b. (index b, block_getitem b ''target'', block_getitem b ''noBeam''))
          (all_numbeams (remove_numerical_beam 1 example_hierarchy)) =
       [(0, Inr (WStr ''a''), Inr (WInt 0)), (1, Inr (WStr ''b''), Inr (WInt 1))]"
proof -
  have k: "(0::int) \<le> 1" "(1::int) < int (length (all_numbeams example_hierarchy))"
    by (simp_all add: example_count)
  show ?thesis
    using example_registry_has_noBeam build_example k example_removed
      C8_remove_numerical_beam_renumbers
        [OF example_registry_has_noBeam build_example k]
    by blast
qed



section \<open>Properties of the blocks' object store\<close>

subsection \<open>\<open>deepcopy\<close>\<close>



lemma deepcopy_keys: "deepcopy conf h = (conf', h') \<Longrightarrow> map fst conf' = map fst conf"
proof (induction conf arbitrary: h conf' h')
  case Nil
  then show ?case by simp
next
  case (Cons p conf)
  obtain k a where p: "p = (k, a)" by (cases p)
  let ?h1 = "h\<lparr>cells := (cells h)(next_free h := cells h a), next_free := Suc (next_free h)\<rparr>"
  obtain rest' h2 where r: "deepcopy conf ?h1 = (rest', h2)" by (cases "deepcopy conf ?h1")
  have c: "conf' = (k, next_free h) # rest'" using Cons.prems p r by simp
  then show ?case using Cons.IH [OF r] p by simp
qed

lemma deepcopy_frame:
  "deepcopy conf h = (conf', h') \<Longrightarrow> a < next_free h \<Longrightarrow> cells h' a = cells h a"
proof (induction conf arbitrary: h conf' h')
  case Nil
  then show ?case by simp
next
  case (Cons p conf)
  obtain k b where p: "p = (k, b)" by (cases p)
  let ?h1 = "h\<lparr>cells := (cells h)(next_free h := cells h b), next_free := Suc (next_free h)\<rparr>"
  obtain rest' h2 where r: "deepcopy conf ?h1 = (rest', h2)" by (cases "deepcopy conf ?h1")
  have "h' = h2" using Cons.prems(1) p r by simp
  moreover have "cells h2 a = cells ?h1 a"
    using Cons.IH [OF r] Cons.prems(2) by simp
  ultimately show ?case using Cons.prems(2) by simp
qed

text \<open>The copy reads as the original does.\<close>

lemma deepcopy_copies:
  "deepcopy conf h = (conf', h') \<Longrightarrow> list_all (\<lambda>a. a < next_free h) (map snd conf) \<Longrightarrow>
   read_configuration h' conf' = read_configuration h conf"
proof (induction conf arbitrary: h conf' h')
  case Nil
  then show ?case by (simp add: read_configuration_def)
next
  case (Cons p conf)
  obtain k b where p: "p = (k, b)" by (cases p)
  let ?h1 = "h\<lparr>cells := (cells h)(next_free h := cells h b), next_free := Suc (next_free h)\<rparr>"
  obtain rest' h2 where r: "deepcopy conf ?h1 = (rest', h2)" by (cases "deepcopy conf ?h1")
  have c: "conf' = (k, next_free h) # rest'" and h': "h' = h2"
    using Cons.prems(1) p r by simp_all
  have old: "list_all (\<lambda>a. a < next_free h) (map snd conf)" and b: "b < next_free h"
    using Cons.prems(2) p by simp_all
  have "list_all (\<lambda>a. a < next_free ?h1) (map snd conf)"
    using old by (auto simp: list_all_iff)
  then have "read_configuration h2 rest' = read_configuration ?h1 conf"
    using Cons.IH [OF r] by blast
  also have "\<dots> = read_configuration h conf"
    using old by (auto simp: read_configuration_def list_all_iff)
  finally have rest: "read_configuration h2 rest' = read_configuration h conf" .
  have "cells h2 (next_free h) = cells ?h1 (next_free h)"
    using deepcopy_frame [OF r, of "next_free h"] by simp
  then have "cells h2 (next_free h) = cells h b" by simp
  then show ?case using rest c h' p by (simp add: read_configuration_def)
qed

subsection \<open>Writing through a block\<close>

lemma store_set_entry_next [simp]:
  "next_free (store_set_entry svc conf key v h) = next_free h"
  by (simp add: store_set_entry_def split: option.splits)

lemma store_set_entry_frame:
  "a \<notin> snd ` set conf \<Longrightarrow> cells (store_set_entry svc conf key v h) a = cells h a"
  by (auto simp: store_set_entry_def split: option.splits dest!: map_of_SomeD
      intro: rev_image_eqI)

lemma store_modify_properties_next [simp]:
  "next_free (store_modify_properties svc kw b h) = next_free h"
proof -
  have "next_free (fold (\<lambda>(key, v) h'. store_set_entry svc conf key v h') kw h) = next_free h"
    for conf
    by (induction kw arbitrary: h) (auto split: prod.splits)
  then show ?thesis by (simp add: store_modify_properties_def)
qed

lemma store_modify_properties_frame:
  assumes "a \<notin> set (block_addrs b)"
  shows "cells (store_modify_properties svc kw b h) a = cells h a"
proof -
  have "cells (fold (\<lambda>(key, v) h'. store_set_entry svc (r_configuration b) key v h') kw h) a
          = cells h a"
    using assms
    by (induction kw arbitrary: h)
       (auto simp: block_addrs_def store_set_entry_frame split: prod.splits)
  then show ?thesis by (simp add: store_modify_properties_def)
qed


subsection \<open>Blocks never share an entry\<close>











lemma example_blocks:
  "map r_configuration (blocks example_store) =
     [ [(''target'', 3), (''noBeam'', 4)], [(''target'', 5), (''noBeam'', 6)], [(''title'', 7)] ]"
  by code_simp





lemma example_values_after:
  "map (\<lambda>b. map (\<lambda>(k, e). (k, map_option e_value e, map_option e_modified e))
                (read_configuration (objects example_store_after) (r_configuration b)))
       (blocks example_store) =
     [ [(''target'', Some (WStr ''a''), Some True), (''noBeam'', Some (WInt 7), Some True)],
      [(''target'', Some (WStr ''b''), Some True), (''noBeam'', Some (WInt 0), Some False)],
      [(''title'', Some (WStr []), Some False)] ]"
  by code_simp


end
